theory Spec2Isabelle
  imports Complex_Main "HOL-Library.AList"
begin

section \<open>Python values, errors and dictionaries\<close>

text \<open>
  The notebooks are linear Python scripts over third-party libraries (pystac, geopandas,
  shapely, rioxarray, urlpath, stac2dcache).  The code of the notebooks is embedded as HOL
  functions; every library call is a function parameter (collected in records of library
  operations), so that each theorem holds for whatever the library computes.

  An exception raised by the notebook's own code is a constructor of \<open>py_error\<close>; an
  exception raised inside a library call is wrapped as \<open>LibraryError\<close>.
\<close>

datatype py_error =
    AssertionError
  | KeyError
  | IndexError
  | ValueError
  | TypeError
  | AttributeError
  | ZeroDivisionError
  | LibraryError string

text \<open>A library call that may raise returns \<open>string + 'a\<close>; \<open>lib\<close> re-raises it.\<close>

definition lib :: "string + 'a \<Rightarrow> py_error + 'a" where
  "lib r = (case r of Inl msg \<Rightarrow> Inl (LibraryError msg) | Inr v \<Rightarrow> Inr v)"

text \<open>
  Property values of a catalog item as the notebooks use them: integers
  (\<open>sentinel:utm_zone\<close>) and strings.
\<close>

datatype pyval = PInt int | PStr string

definition digit_char :: "nat \<Rightarrow> char" where
  "digit_char d = ''0123456789'' ! d"

fun str_nat :: "nat \<Rightarrow> string" where
  "str_nat n = (if n < 10 then [digit_char n] else str_nat (n div 10) @ [digit_char (n mod 10)])"

declare str_nat.simps [simp del]

text \<open>\<open>str(i)\<close> of a Python integer.\<close>

definition str_int :: "int \<Rightarrow> string" where
  "str_int i = (if i < 0 then ''-'' @ str_nat (nat (- i)) else str_nat (nat i))"

text \<open>\<open>str(v)\<close>, which is also what \<open>'{}'.format(v)\<close> and an f-string \<open>{v}\<close> give.\<close>

fun py_str :: "pyval \<Rightarrow> string" where
  "py_str (PInt i) = str_int i"
| "py_str (PStr s) = s"

text \<open>
  \<open>'{:02d}'.format(v)\<close>: an integer in decimal, padded with zeros to width two (the sign
  counts for the width); a string raises \<open>ValueError\<close>.
\<close>

definition format_02d_int :: "int \<Rightarrow> string" where
  "format_02d_int i = (if 0 \<le> i \<and> i < 10 then ''0'' @ str_int i else str_int i)"

fun format_02d :: "pyval \<Rightarrow> py_error + string" where
  "format_02d (PInt i) = Inr (format_02d_int i)"
| "format_02d (PStr s) = Inl ValueError"

text \<open>\<open>d[k]\<close> on a dictionary: \<open>KeyError\<close> when the key is absent.\<close>

definition getitem :: "('k \<rightharpoonup> 'v) \<Rightarrow> 'k \<Rightarrow> py_error + 'v" where
  "getitem d k = (case d k of None \<Rightarrow> Inl KeyError | Some v \<Rightarrow> Inr v)"

section \<open>Catalog items\<close>

text \<open>
  A pystac asset and item, with the fields the notebooks read or write.  The geometry of
  an item is a GeoJSON value of type \<open>'j\<close>, its timestamp a value of type \<open>'t\<close>.
  The dictionaries \<open>properties\<close> and \<open>assets\<close> are only looked up and updated by key
  (never iterated), so they are maps.
\<close>

record asset =
  href :: string
  media_type :: "string option"
  roles :: "string list"

record ('j, 't) item =
  item_id :: string
  datetime :: 't
  geometry :: 'j
  bbox :: "(real \<times> real \<times> real \<times> real) option"
  properties :: "string \<rightharpoonup> pyval"
  assets :: "string \<rightharpoonup> asset"
  links :: "(string \<times> string) list"

section \<open>Tile enumeration\<close>

definition TILE_ID_KEYS :: "string list" where
  "TILE_ID_KEYS = [''sentinel:utm_zone'', ''sentinel:latitude_band'', ''sentinel:grid_square'']"

text \<open>
  The list comprehension \<open>[str(item.properties[k]) for k in TILE_ID_KEYS]\<close>: the first
  missing key raises.
\<close>

fun str_properties :: "(string \<rightharpoonup> pyval) \<Rightarrow> string list \<Rightarrow> py_error + string list" where
  "str_properties props [] = Inr []"
| "str_properties props (k # ks) =
     (case getitem props k of
        Inl e \<Rightarrow> Inl e
      | Inr v \<Rightarrow> (case str_properties props ks of
                    Inl e \<Rightarrow> Inl e
                  | Inr ss \<Rightarrow> Inr (py_str v # ss)))"

text \<open>\<open>get_sentinel2_tile_id(item)\<close>: \<open>"".join([...])\<close>.\<close>

definition get_sentinel2_tile_id :: "('j, 't) item \<Rightarrow> py_error + string" where
  "get_sentinel2_tile_id item =
     (case str_properties (properties item) TILE_ID_KEYS of
        Inl e \<Rightarrow> Inl e
      | Inr ss \<Rightarrow> Inr (concat ss))"

text \<open>
  The enumeration loop.  \<open>tiles\<close> is a Python dictionary that is iterated later, so it is
  an association list in insertion order; \<open>tiles[tile_id] = item\<close> is \<open>AList.update\<close>.
  \<^verbatim>\<open>
  tiles = {}
  for item in subcatalog.get_all_items():
      tile_id = get_sentinel2_tile_id(item)
      if tile_id not in tiles:
          tiles[tile_id] = item
  \<close>
\<close>

fun tiles_loop ::
  "(string \<times> ('j, 't) item) list \<Rightarrow> ('j, 't) item list \<Rightarrow> py_error + (string \<times> ('j, 't) item) list" where
  "tiles_loop tiles [] = Inr tiles"
| "tiles_loop tiles (item # rest) =
     (case get_sentinel2_tile_id item of
        Inl e \<Rightarrow> Inl e
      | Inr tile_id \<Rightarrow>
          tiles_loop (if tile_id \<notin> fst ` set tiles then AList.update tile_id item tiles else tiles) rest)"

definition enumerate_tiles :: "('j, 't) item list \<Rightarrow> py_error + (string \<times> ('j, 't) item) list" where
  "enumerate_tiles items = tiles_loop [] items"

section \<open>Source lookup in a spatial index\<close>

text \<open>
  A spatial index is a geopandas table: a list of rows, each a geometry of type \<open>'g\<close>
  and a descriptor column (\<open>RGI_CODE\<close> for the glacier regions, \<open>fileurl\<close> for the
  elevation tiles).  The spatial predicate \<open>intersects\<close> of the geometry library is the
  parameter \<open>I\<close>.

  \<open>index.intersects(geometry)\<close> is the boolean column \<open>intersects_mask\<close>, and
  \<open>index[mask]\<close> keeps the rows at which the mask is \<open>True\<close>.
\<close>

record 'g rgi_row =
  rgi_geometry :: 'g
  RGI_CODE :: int

record 'g dem_row =
  dem_geometry :: 'g
  fileurl :: string

definition intersects_mask :: "('g \<Rightarrow> 'g \<Rightarrow> bool) \<Rightarrow> 'g list \<Rightarrow> 'g \<Rightarrow> bool list" where
  "intersects_mask I geometries geom = map (\<lambda>x. I x geom) geometries"

definition select_mask :: "'a list \<Rightarrow> bool list \<Rightarrow> 'a list" where
  "select_mask rows flags = map fst (filter snd (zip rows flags))"

text \<open>
  \<^verbatim>\<open>
  def get_itersecting_RGI_regions(index, geometry):
      mask = index.intersects(geometry)
      index = index[mask]
      return index.RGI_CODE
  \<close>
\<close>

definition get_itersecting_RGI_regions ::
  "('g \<Rightarrow> 'g \<Rightarrow> bool) \<Rightarrow> 'g rgi_row list \<Rightarrow> 'g \<Rightarrow> int list" where
  "get_itersecting_RGI_regions I index geom =
     (let mask = intersects_mask I (map rgi_geometry index) geom;
          index' = select_mask index mask
      in map RGI_CODE index')"

text \<open>
  \<^verbatim>\<open>
  def get_itersecting_DEM_tile_URLs(index, geometry):
      mask = index.intersects(geometry)
      index = index[mask]
      return index.fileurl
  \<close>
\<close>

definition get_itersecting_DEM_tile_URLs ::
  "('g \<Rightarrow> 'g \<Rightarrow> bool) \<Rightarrow> 'g dem_row list \<Rightarrow> 'g \<Rightarrow> string list" where
  "get_itersecting_DEM_tile_URLs I index geom =
     (let mask = intersects_mask I (map dem_geometry index) geom;
          index' = select_mask index mask
      in map fileurl index')"

text \<open>
  Modelled from the spec: the predicate \<open>intersects\<close> of the geometry library, which is
  not code of this repository ("standard spatial predicate: non-empty geometric
  intersection").  A geometry is read as its set of points.
\<close>

definition intersects_points :: "'p set \<Rightarrow> 'p set \<Rightarrow> bool" where
  "intersects_points a b = (a \<inter> b \<noteq> {})"

section \<open>The per-tile loops\<close>

text \<open>Sequencing of steps that may raise.\<close>

definition and_then :: "py_error + 'a \<Rightarrow> ('a \<Rightarrow> py_error + 'b) \<Rightarrow> py_error + 'b" where
  "and_then r f = (case r of Inl e \<Rightarrow> Inl e | Inr v \<Rightarrow> f v)"

type_synonym bounds = "real \<times> real \<times> real \<times> real"

text \<open>
  The band \<open>B02\<close> of a tile as \<open>get_asset(..., load=False)\<close> returns it: its bounding
  box \<open>da.rio.bounds()\<close>, \<open>da.spatial_ref.crs_wkt\<close>, the affine transform
  \<open>da.rio.transform()\<close> and the sizes \<open>da.y.size\<close>, \<open>da.x.size\<close>.
\<close>

record 'tr data_array =
  rio_bounds :: bounds
  crs_wkt :: string
  rio_transform :: 'tr
  y_size :: nat
  x_size :: nat

text \<open>The library operations the three retiling notebooks share.\<close>

record ('g, 'tr) tile_lib =
  get_asset :: "string \<Rightarrow> string + 'tr data_array"
  transform_bounds :: "'tr data_array \<Rightarrow> string \<Rightarrow> bounds"
  from_bounds :: "bounds \<Rightarrow> 'g"
  intersects :: "'g \<Rightarrow> 'g \<Rightarrow> bool"
  intersection :: "'g \<Rightarrow> 'g \<Rightarrow> 'g"
  to_crs :: "'g \<Rightarrow> string \<Rightarrow> 'g"
  unary_union :: "'g list \<Rightarrow> 'g"
  upload :: "string \<Rightarrow> string \<Rightarrow> string + unit"

text \<open>
  \<open>for tile_id, item in tiles.items(): ...\<close>: the tiles in the dictionary's order; the
  first step that raises ends the loop, and the rasters uploaded before stay uploaded.
  The result is the list of files uploaded and the exception, if any.
\<close>

fun tile_loop ::
  "(string \<times> ('j, 't) item \<Rightarrow> py_error + string) \<Rightarrow> (string \<times> ('j, 't) item) list
     \<Rightarrow> string list \<times> py_error option" where
  "tile_loop step [] = ([], None)"
| "tile_loop step (tile # rest) =
     (case step tile of
        Inl e \<Rightarrow> ([], Some e)
      | Inr out \<Rightarrow> (case tile_loop step rest of (outs, r) \<Rightarrow> (out # outs, r)))"

subsection \<open>Glacier mask (RGI)\<close>

definition rgi_root_url :: string where
  "rgi_root_url =
     ''https://webdav.grid.surfsara.nl:2880/pnfs/grid.sara.nl/data/eratosthenes/disk/GIS/Glacier''"

definition rgi_tiles_url :: string where
  "rgi_tiles_url =
     ''https://webdav.grid.surfsara.nl:2880/pnfs/grid.sara.nl/data/eratosthenes/disk/RasterRGI_tiles_sentinel-2''"

text \<open>\<open>codes.iloc[0]\<close>: \<open>IndexError\<close> on an empty column.\<close>

definition iloc0 :: "'a list \<Rightarrow> py_error + 'a" where
  "iloc0 xs = (case xs of [] \<Rightarrow> Inl IndexError | x # _ \<Rightarrow> Inr x)"

text \<open>\<open>paths.pop()\<close>: the last element, \<open>IndexError\<close> on an empty list.\<close>

definition pop :: "'a list \<Rightarrow> py_error + 'a" where
  "pop xs = (if xs = [] then Inl IndexError else Inr (last xs))"

text \<open>
  The resolver of the glacier notebook, the three statements
  \<^verbatim>\<open>
  rgi_codes = get_itersecting_RGI_regions(rgi_index, tile_geometry)
  assert len(rgi_codes) == 1, "Only one RGI region implemented!"
  rgi_code = rgi_codes.iloc[0]
  \<close>
\<close>

definition rgi_lookup :: "('g \<Rightarrow> 'g \<Rightarrow> bool) \<Rightarrow> 'g rgi_row list \<Rightarrow> 'g \<Rightarrow> py_error + int" where
  "rgi_lookup I rgi_index tile_geometry =
     (let rgi_codes = get_itersecting_RGI_regions I rgi_index tile_geometry
      in if length rgi_codes \<noteq> 1 then Inl AssertionError else iloc0 rgi_codes)"

text \<open>
  The library operations of the glacier notebook: \<open>dcache.glob\<close>, and
  \<open>rasterize_region path tile_id da\<close> for the block that downloads and unpacks the
  region's shapefile, reprojects it (\<open>ll2utm\<close>) and rasterises it on the tile's grid
  (\<open>shape2raster\<close>), writing \<open>tile_id.tif\<close>.
\<close>

record ('g, 'tr) rgi_lib = "('g, 'tr) tile_lib" +
  glob :: "string \<Rightarrow> string + string list"
  rasterize_region :: "string \<Rightarrow> string \<Rightarrow> 'tr data_array \<Rightarrow> string + unit"

text \<open>The body of the loop over the tiles of the glacier notebook.\<close>

definition rgi_tile_step ::
  "('g, 'tr) rgi_lib \<Rightarrow> string \<Rightarrow> 'g rgi_row list \<Rightarrow> string \<times> ('j, 't) item \<Rightarrow> py_error + string" where
  "rgi_tile_step L rgi_index_crs rgi_index tile =
     (case tile of (tile_id, item) \<Rightarrow>
      and_then (lib (get_asset L (item_id item))) (\<lambda>da.
      let tile_geometry = from_bounds L (transform_bounds L da rgi_index_crs) in
      and_then (rgi_lookup (intersects L) rgi_index tile_geometry) (\<lambda>rgi_code.
      and_then (lib (glob L (rgi_root_url @ ''/'' @ format_02d_int rgi_code @ ''_rgi60_*.zip''))) (\<lambda>paths.
      and_then (pop paths) (\<lambda>rgi_region_path.
      and_then (lib (rasterize_region L rgi_region_path tile_id da)) (\<lambda>_.
      let output_file = tile_id @ ''.tif'' in
      and_then (lib (upload L output_file (rgi_tiles_url @ ''/'' @ output_file))) (\<lambda>_.
      Inr output_file)))))))"

definition rgi_notebook ::
  "('g, 'tr) rgi_lib \<Rightarrow> string \<Rightarrow> 'g rgi_row list \<Rightarrow> (string \<times> ('j, 't) item) list
     \<Rightarrow> string list \<times> py_error option" where
  "rgi_notebook L rgi_index_crs rgi_index tiles = tile_loop (rgi_tile_step L rgi_index_crs rgi_index) tiles"

subsection \<open>Elevation model (DEM)\<close>

definition dem_tiles_url :: string where
  "dem_tiles_url =
     ''https://webdav.grid.surfsara.nl:2880/pnfs/grid.sara.nl/data/eratosthenes/disk/ArcticDEM_tiles_sentinel-2''"

text \<open>
  The raster library.  A temporary directory is a list of files (name and content of type
  \<open>'f\<close>); \<open>get_tar_file url tmpdir\<close> downloads and unpacks an archive into it and
  gives the directory afterwards.  Rasters have type \<open>'r\<close>.
\<close>

record ('f, 'r, 'tr) raster_lib =
  get_tar_file :: "string \<Rightarrow> (string \<times> 'f) list \<Rightarrow> string + (string \<times> 'f) list"
  open_rasterio :: "string \<times> 'f \<Rightarrow> string + 'r"
  merge_arrays :: "'r list \<Rightarrow> string + 'r"
  reproject :: "'r \<Rightarrow> string \<Rightarrow> 'tr \<Rightarrow> string + 'r"
  clip_box :: "'r \<Rightarrow> bounds \<Rightarrow> string + 'r"
  to_raster :: "'r \<Rightarrow> string \<Rightarrow> string + unit"

text \<open>
  The library calls of \<open>download_and_mosaic\<close> are its effects: the function is modelled
  with the log of the calls it makes, in the order in which it makes them.
\<close>

datatype 'tr call =
    GetTarFile string
  | OpenRasterio string
  | MergeArrays nat
  | Reproject string 'tr
  | ClipBox bounds

definition call :: "'c \<Rightarrow> string + 'a \<Rightarrow> (py_error + 'a) \<times> 'c list" where
  "call c r = (lib r, [c])"

definition then_log ::
  "(py_error + 'a) \<times> 'c list \<Rightarrow> ('a \<Rightarrow> (py_error + 'b) \<times> 'c list) \<Rightarrow> (py_error + 'b) \<times> 'c list" where
  "then_log m f =
     (case m of
        (Inl e, calls) \<Rightarrow> (Inl e, calls)
      | (Inr v, calls) \<Rightarrow> (case f v of (r, calls') \<Rightarrow> (r, calls @ calls')))"

text \<open>\<open>for url in url_list: get_tar_file(url, tmpdir)\<close>\<close>

fun download_loop ::
  "('f, 'r, 'tr) raster_lib \<Rightarrow> string list \<Rightarrow> (string \<times> 'f) list
     \<Rightarrow> (py_error + (string \<times> 'f) list) \<times> 'tr call list" where
  "download_loop R [] tmpdir = (Inr tmpdir, [])"
| "download_loop R (url # urls) tmpdir =
     then_log (call (GetTarFile url) (get_tar_file R url tmpdir)) (\<lambda>tmpdir'.
     download_loop R urls tmpdir')"

text \<open>\<open>s.endswith(suffix)\<close>\<close>

definition endswith :: "string \<Rightarrow> string \<Rightarrow> bool" where
  "endswith s suffix = (length suffix \<le> length s \<and> drop (length s - length suffix) s = suffix)"

text \<open>\<open>pathlib.Path(tmpdir).glob("*_dem.tif")\<close>, in the directory's order.\<close>

definition glob_dem_tif :: "(string \<times> 'f) list \<Rightarrow> (string \<times> 'f) list" where
  "glob_dem_tif tmpdir = filter (\<lambda>file. endswith (fst file) ''_dem.tif'') tmpdir"

text \<open>\<open>[rioxarray.open_rasterio(f) for f in dem_tiles_filename]\<close>\<close>

fun open_all ::
  "('f, 'r, 'tr) raster_lib \<Rightarrow> (string \<times> 'f) list \<Rightarrow> (py_error + 'r list) \<times> 'tr call list" where
  "open_all R [] = (Inr [], [])"
| "open_all R (f # fs) =
     then_log (call (OpenRasterio (fst f)) (open_rasterio R f)) (\<lambda>r.
     then_log (open_all R fs) (\<lambda>rs.
     (Inr (r # rs), [])))"

text \<open>
  \<^verbatim>\<open>
  def download_and_mosaic(url_list, tmp_path, bbox, crs, transform):
      with tempfile.TemporaryDirectory(dir=tmp_path) as tmpdir:
          for url in url_list:
              get_tar_file(url, tmpdir)
          dem_tiles_filename = pathlib.Path(tmpdir).glob("*_dem.tif")
          dem_tiles = [rioxarray.open_rasterio(f) for f in dem_tiles_filename]
          dem = rioxarray.merge.merge_arrays(dem_tiles)
          dem_reproj = dem.rio.reproject(crs, transform=transform)
          dem_clip = dem_reproj.rio.clip_box(*bbox)
      return dem_clip
  \<close>
  The temporary directory is new, hence empty.
\<close>

definition download_and_mosaic ::
  "('f, 'r, 'tr) raster_lib \<Rightarrow> string list \<Rightarrow> bounds \<Rightarrow> string \<Rightarrow> 'tr
     \<Rightarrow> (py_error + 'r) \<times> 'tr call list" where
  "download_and_mosaic R url_list bbx crs transform =
     then_log (download_loop R url_list []) (\<lambda>tmpdir.
     then_log (open_all R (glob_dem_tif tmpdir)) (\<lambda>dem_tiles.
     then_log (call (MergeArrays (length dem_tiles)) (merge_arrays R dem_tiles)) (\<lambda>dem.
     then_log (call (Reproject crs transform) (reproject R dem crs transform)) (\<lambda>dem_reproj.
     call (ClipBox bbx) (clip_box R dem_reproj bbx)))))"

text \<open>\<open>dem_index.to_crs(crs)\<close>: every geometry of the index reprojected.\<close>

definition index_to_crs :: "('g, 'tr, 'x) tile_lib_scheme \<Rightarrow> 'g dem_row list \<Rightarrow> string \<Rightarrow> 'g dem_row list" where
  "index_to_crs L index crs = map (\<lambda>row. row\<lparr>dem_geometry := to_crs L (dem_geometry row) crs\<rparr>) index"

text \<open>
  The body of the loop over the tiles of the elevation notebook:
  \<^verbatim>\<open>
  tile_geometry = Polygon.from_bounds(*bbox)
  urls = get_itersecting_DEM_tile_URLs(dem_index.to_crs(crs), tile_geometry)
  dem = download_and_mosaic(urls, tmp_path, bbox, crs, transform)
  output_file = f"{tile_id}.tif"
  dem.rio.to_raster(output_file)
  dcache.upload(output_file, f"{dem_tiles_url}/{output_file}")
  \<close>
\<close>

definition dem_tile_step ::
  "('g, 'tr, 'x) tile_lib_scheme \<Rightarrow> ('f, 'r, 'tr) raster_lib \<Rightarrow> 'g dem_row list
     \<Rightarrow> string \<times> ('j, 't) item \<Rightarrow> py_error + string" where
  "dem_tile_step L R dem_index tile =
     (case tile of (tile_id, item) \<Rightarrow>
      and_then (lib (get_asset L (item_id item))) (\<lambda>da.
      let bbx = rio_bounds da;
          crs = crs_wkt da;
          transform = rio_transform da;
          tile_geometry = from_bounds L bbx;
          urls = get_itersecting_DEM_tile_URLs (intersects L) (index_to_crs L dem_index crs) tile_geometry
      in
      and_then (fst (download_and_mosaic R urls bbx crs transform)) (\<lambda>dem.
      let output_file = tile_id @ ''.tif'' in
      and_then (lib (to_raster R dem output_file)) (\<lambda>_.
      and_then (lib (upload L output_file (dem_tiles_url @ ''/'' @ output_file))) (\<lambda>_.
      Inr output_file)))))"

definition dem_notebook ::
  "('g, 'tr, 'x) tile_lib_scheme \<Rightarrow> ('f, 'r, 'tr) raster_lib \<Rightarrow> 'g dem_row list
     \<Rightarrow> (string \<times> ('j, 't) item) list \<Rightarrow> string list \<times> py_error option" where
  "dem_notebook L R dem_index tiles = tile_loop (dem_tile_step L R dem_index) tiles"

subsection \<open>Coastline mask (GSHHS)\<close>

definition gshhs_tiles_url :: string where
  "gshhs_tiles_url =
     ''https://webdav.grid.surfsara.nl:2880/pnfs/grid.sara.nl/data/eratosthenes/disk/RasterGSHHS_tiles_sentinel-2''"

text \<open>
  \<open>rasterize_land shape tile_id da\<close> stands for writing the one-row table
  \<open>dict(land=[1], geometry=[shape])\<close> to a shapefile and rasterising it on the tile's
  grid (\<open>shape2raster(..., aoi="land")\<close>), writing \<open>tile_id.tif\<close>.
\<close>

record ('g, 'tr) gshhs_lib = "('g, 'tr) tile_lib" +
  rasterize_land :: "'g \<Rightarrow> string \<Rightarrow> 'tr data_array \<Rightarrow> string + unit"

text \<open>
  The body of the loop over the tiles of the coastline notebook; \<open>gshhs\<close> is the geometry
  column of the coastline table.
  \<^verbatim>\<open>
  tile_geometry = Polygon.from_bounds(*da.rio.transform_bounds(gshhs.crs))
  mask = gshhs.intersects(tile_geometry)
  gshhs_sub = gshhs[mask]
  res = gshhs_sub.intersection(tile_geometry)
  shape_utm = geopandas.GeoDataFrame(
      dict(land=[1], geometry=[res.to_crs(crs).unary_union]), crs=res.crs)
  ...
  shape2raster(local_shp_utm_path.as_posix(), tile_id, transform.to_gdal(),
               da.y.size, da.x.size, aoi="land")
  output_file = f"{tile_id}.tif"
  dcache.upload(output_file, f"{gshhs_tiles_url}/{output_file}")
  \<close>
\<close>

definition gshhs_tile_step ::
  "('g, 'tr) gshhs_lib \<Rightarrow> string \<Rightarrow> 'g list \<Rightarrow> string \<times> ('j, 't) item \<Rightarrow> py_error + string" where
  "gshhs_tile_step L gshhs_crs gshhs tile =
     (case tile of (tile_id, item) \<Rightarrow>
      and_then (lib (get_asset L (item_id item))) (\<lambda>da.
      let crs = crs_wkt da;
          tile_geometry = from_bounds L (transform_bounds L da gshhs_crs);
          mask = intersects_mask (intersects L) gshhs tile_geometry;
          gshhs_sub = select_mask gshhs mask;
          res = map (\<lambda>x. intersection L x tile_geometry) gshhs_sub;
          shape_utm = unary_union L (map (\<lambda>x. to_crs L x crs) res)
      in
      and_then (lib (rasterize_land L shape_utm tile_id da)) (\<lambda>_.
      let output_file = tile_id @ ''.tif'' in
      and_then (lib (upload L output_file (gshhs_tiles_url @ ''/'' @ output_file))) (\<lambda>_.
      Inr output_file))))"

definition gshhs_notebook ::
  "('g, 'tr) gshhs_lib \<Rightarrow> string \<Rightarrow> 'g list \<Rightarrow> (string \<times> ('j, 't) item) list
     \<Rightarrow> string list \<times> py_error option" where
  "gshhs_notebook L gshhs_crs gshhs tiles = tile_loop (gshhs_tile_step L gshhs_crs gshhs) tiles"

section \<open>Linking the assets to the public object storage\<close>

definition BASE_URL_tiles :: string where
  "BASE_URL_tiles = ''http://storage.googleapis.com/gcp-public-data-sentinel-2/tiles''"

text \<open>
  A \<open>dataObject\<close> element of \<open>manifest.safe\<close>: its attribute \<open>ID\<close>, if any, and the
  \<open>href\<close> attribute of its \<open>byteStream/fileLocation\<close> child (\<open>None\<close> without
  such a child, \<open>Some None\<close> for a child without the attribute).
\<close>

record data_object =
  ID :: "string option"
  fileLocation :: "string option option"

text \<open>
  The URL library: \<open>get_manifest u\<close> fetches the text at \<open>u\<close> and parses it into its
  \<open>dataObject\<close> elements in document order; \<open>url_div\<close> is \<open>url / part\<close>.
\<close>

record url_lib =
  get_manifest :: "string \<Rightarrow> string + data_object list"
  url_div :: "string \<Rightarrow> string \<Rightarrow> string"
  stem :: "string \<Rightarrow> string"
  as_uri :: "string \<Rightarrow> string"

text \<open>\<open>sub in s\<close> on strings.\<close>

fun contains :: "string \<Rightarrow> string \<Rightarrow> bool" where
  "contains [] sub = (sub = [])"
| "contains (c # cs) sub = (take (length sub) (c # cs) = sub \<or> contains cs sub)"

text \<open>\<open>s.split(sep)[-1]\<close>: what follows the last separator.\<close>

definition last_field :: "char \<Rightarrow> string \<Rightarrow> string" where
  "last_field sep s = rev (takeWhile (\<lambda>c. c \<noteq> sep) (rev s))"

text \<open>
  The loop of \<open>_get_band_urls\<close>; \<open>band_urls\<close> is a dictionary that is iterated later:
  \<^verbatim>\<open>
  for data_object in root.iter('dataObject'):
      id = data_object.get('ID')
      if id is not None and 'IMG_DATA' in id:
          file_location = data_object.find('byteStream/fileLocation')
          band_url = url / file_location.get('href')
          band = band_url.stem.split('_')[-1] # 'XX_XXXX_B01.jp2' -> 'B01'
          band_urls[band] = band_url.as_uri()
  \<close>
\<close>

fun band_urls_loop ::
  "url_lib \<Rightarrow> string \<Rightarrow> (string \<times> string) list \<Rightarrow> data_object list
     \<Rightarrow> py_error + (string \<times> string) list" where
  "band_urls_loop U url band_urls [] = Inr band_urls"
| "band_urls_loop U url band_urls (obj # objs) =
     (case ID obj of
        None \<Rightarrow> band_urls_loop U url band_urls objs
      | Some ident \<Rightarrow>
          if contains ident ''IMG_DATA'' then
            (case fileLocation obj of
               None \<Rightarrow> Inl AttributeError
             | Some None \<Rightarrow> Inl TypeError
             | Some (Some h) \<Rightarrow>
                 (let band_url = url_div U url h;
                      band = last_field CHR ''_'' (stem U band_url)
                  in band_urls_loop U url (AList.update band (as_uri U band_url) band_urls) objs))
          else band_urls_loop U url band_urls objs)"

text \<open>\<open>_get_band_urls(url)\<close>\<close>

definition get_band_urls :: "url_lib \<Rightarrow> string \<Rightarrow> py_error + (string \<times> string) list" where
  "get_band_urls U url =
     (let manifest_url = url_div U url ''manifest.safe'' in
      and_then (lib (get_manifest U manifest_url)) (\<lambda>objs.
      band_urls_loop U url [] objs))"

text \<open>
  The URL of the scene in the bucket.  The four arguments are looked up first, then
  formatted:
  \<^verbatim>\<open>
  url = '{}/{:02d}/{}/{}/{}.SAFE'.format(
      BASE_URL,
      item.properties['sentinel:utm_zone'],
      item.properties['sentinel:latitude_band'],
      item.properties['sentinel:grid_square'],
      item.properties['sentinel:product_id'])
  \<close>
\<close>

definition scene_url :: "('j, 't) item \<Rightarrow> py_error + string" where
  "scene_url item =
     and_then (getitem (properties item) ''sentinel:utm_zone'') (\<lambda>utm_zone.
     and_then (getitem (properties item) ''sentinel:latitude_band'') (\<lambda>latitude_band.
     and_then (getitem (properties item) ''sentinel:grid_square'') (\<lambda>grid_square.
     and_then (getitem (properties item) ''sentinel:product_id'') (\<lambda>product_id.
     and_then (format_02d utm_zone) (\<lambda>zone.
     Inr (BASE_URL_tiles @ ''/'' @ zone @ ''/'' @ py_str latitude_band @ ''/'' @ py_str grid_square
          @ ''/'' @ py_str product_id @ ''.SAFE''))))))"

text \<open>
  \<^verbatim>\<open>
  for band, url in band_urls.items():
      if band in item.assets:
          item.assets[band].href = url
  \<close>
\<close>

fun assign_band_hrefs :: "(string \<times> string) list \<Rightarrow> (string \<rightharpoonup> asset) \<Rightarrow> (string \<rightharpoonup> asset)" where
  "assign_band_hrefs [] item_assets = item_assets"
| "assign_band_hrefs ((band, url) # rest) item_assets =
     assign_band_hrefs rest
       (case item_assets band of
          None \<Rightarrow> item_assets
        | Some a \<Rightarrow> item_assets(band \<mapsto> a\<lparr>href := url\<rparr>))"

text \<open>
  The body of the re-linking loop.  The item is changed in place, so the result is the
  item as the body leaves it, together with the exception that ended the body, if any.
  The last statement is \<open>item.assets['overview'].href = band_urls['TCI']\<close>, whose right
  hand side is evaluated first.
\<close>

definition relink_item :: "url_lib \<Rightarrow> ('j, 't) item \<Rightarrow> ('j, 't) item \<times> py_error option" where
  "relink_item U item =
     (case scene_url item of
        Inl e \<Rightarrow> (item, Some e)
      | Inr url \<Rightarrow>
     (case get_band_urls U url of
        Inl e \<Rightarrow> (item, Some e)
      | Inr band_urls \<Rightarrow>
     (let item1 = item\<lparr>assets := assign_band_hrefs band_urls (assets item)\<rparr> in
      case getitem (map_of band_urls) ''TCI'' of
        Inl e \<Rightarrow> (item1, Some e)
      | Inr tci \<Rightarrow>
     (case getitem (assets item1) ''overview'' of
        Inl e \<Rightarrow> (item1, Some e)
      | Inr a \<Rightarrow> (item1\<lparr>assets := (assets item1)(''overview'' \<mapsto> a\<lparr>href := tci\<rparr>)\<rparr>, None)))))"

text \<open>
  \<open>for item in collection.get_all_items(): ...\<close>: the items of the collection after the
  loop, and the exception that ended it, if any.
\<close>

fun relink_loop :: "url_lib \<Rightarrow> ('j, 't) item list \<Rightarrow> ('j, 't) item list \<times> py_error option" where
  "relink_loop U [] = ([], None)"
| "relink_loop U (item # rest) =
     (case relink_item U item of
        (item', Some e) \<Rightarrow> (item' # rest, Some e)
      | (item', None) \<Rightarrow> (case relink_loop U rest of (rest', r) \<Rightarrow> (item' # rest', r)))"

section \<open>Sensor array metadata: the URL of a file in the bucket\<close>

definition SENTINEL2_BUCKET :: string where
  "SENTINEL2_BUCKET = ''gcp-public-data-sentinel-2''"

definition BASE_URL :: string where
  "BASE_URL = ''http://storage.googleapis.com''"

text \<open>
  \<^verbatim>\<open>
  def make_url(item, path_rel):
      tile_id = item.properties["s2:mgrs_tile"]
      path = (
          f"{SENTINEL2_BUCKET}/tiles/"
          f"{tile_id[:2]}/{tile_id[2]}/{tile_id[3:]}/"
          f"{item.id}/"
          f"{path_rel}"
      )
      return f"{BASE_URL}/{path}"
  \<close>
  Slicing an integer raises \<open>TypeError\<close>, and \<open>tile_id[2]\<close> raises \<open>IndexError\<close> on a
  string of fewer than three characters.
\<close>

definition make_url :: "('j, 't) item \<Rightarrow> string \<Rightarrow> py_error + string" where
  "make_url item path_rel =
     and_then (getitem (properties item) ''s2:mgrs_tile'') (\<lambda>v.
     case v of
       PInt _ \<Rightarrow> Inl TypeError
     | PStr tile_id \<Rightarrow>
         if length tile_id \<le> 2 then Inl IndexError
         else
           (let path = SENTINEL2_BUCKET @ ''/tiles/''
                  @ take 2 tile_id @ ''/'' @ [tile_id ! 2] @ ''/'' @ drop 3 tile_id @ ''/''
                  @ item_id item @ ''/''
                  @ path_rel
            in Inr (BASE_URL @ ''/'' @ path)))"

section \<open>The catalog for the shadow classification\<close>

text \<open>
  The geometry library and the built-ins of the notebook that assembles the catalog.
  Geometries have type \<open>'g\<close>; areas, which are floating-point numbers in Python, are
  idealised as real numbers.  \<open>get_item\<close> is \<open>catalog_l2a.get_item(id, recursive=True)\<close>,
  \<open>int_of\<close> is \<open>int(s)\<close> with \<open>None\<close> for a \<open>ValueError\<close>.
\<close>

record ('g, 'j, 't) shadow_lib =
  shape :: "'j \<Rightarrow> 'g"
  mapping :: "'g \<Rightarrow> 'j"
  geom_intersection :: "'g \<Rightarrow> 'g \<Rightarrow> 'g"
  geom_area :: "'g \<Rightarrow> real"
  geom_bounds :: "'g \<Rightarrow> real \<times> real \<times> real \<times> real"
  strftime :: "'t \<Rightarrow> string \<Rightarrow> string"
  capitalize :: "string \<Rightarrow> string"
  int_of :: "string \<Rightarrow> int option"
  get_item :: "string \<Rightarrow> ('j, 't) item option"

text \<open>\<open>a / b\<close>\<close>

definition truediv :: "real \<Rightarrow> real \<Rightarrow> py_error + real" where
  "truediv a b = (if b = 0 then Inl ZeroDivisionError else Inr (a / b))"

text \<open>\<open>v[-1]\<close> and the slices of a property value that must be a string.\<close>

definition last_char :: "pyval \<Rightarrow> py_error + string" where
  "last_char v =
     (case v of
        PInt _ \<Rightarrow> Inl TypeError
      | PStr s \<Rightarrow> if s = [] then Inl IndexError else Inr [last s])"

definition as_str :: "pyval \<Rightarrow> py_error + string" where
  "as_str v = (case v of PInt _ \<Rightarrow> Inl TypeError | PStr s \<Rightarrow> Inr s)"

text \<open>
  \<^verbatim>\<open>
  def _get_l2a_item(item_l1c, catalog_l2a):
      platform = item_l1c.properties["platform"][-1].capitalize()  # e.g. "A"
      mgrs_tile = item_l1c.properties["s2:mgrs_tile"]  # e.g. "05VMG"
      utm_zone = int(mgrs_tile[0:2])  # e.g. 5
      cell = mgrs_tile[2:]  # e.g. "VMG"
      date = item_l1c.datetime.strftime("%Y%m%d")  # e.g. "20220202"
      item_l2a_id = f"S2{platform}_{utm_zone}{cell}_{date}_0_L2A"
      return catalog_l2a.get_item(item_l2a_id, recursive=True)
  \<close>
\<close>

definition get_l2a_item ::
  "('g, 'j, 't) shadow_lib \<Rightarrow> ('j, 't) item \<Rightarrow> py_error + ('j, 't) item option" where
  "get_l2a_item S item_l1c =
     and_then (getitem (properties item_l1c) ''platform'') (\<lambda>p.
     and_then (last_char p) (\<lambda>c.
     let platform = capitalize S c in
     and_then (getitem (properties item_l1c) ''s2:mgrs_tile'') (\<lambda>m.
     and_then (as_str m) (\<lambda>mgrs_tile.
     and_then (case int_of S (take 2 mgrs_tile) of None \<Rightarrow> Inl ValueError | Some z \<Rightarrow> Inr z) (\<lambda>utm_zone.
     let cell = drop 2 mgrs_tile;
         date = strftime S (datetime item_l1c) ''%Y%m%d'';
         item_l2a_id = ''S2'' @ platform @ ''_'' @ str_int utm_zone @ cell @ ''_'' @ date @ ''_0_L2A''
     in Inr (get_item S item_l2a_id))))))"

text \<open>\<open>item.add_link(pystac.Link(rel, target))\<close>; a link is kept as \<open>rel\<close> and the target's id.\<close>

definition add_link :: "string \<Rightarrow> ('j, 't) item \<Rightarrow> ('j, 't) item \<Rightarrow> ('j, 't) item" where
  "add_link rel target item = item\<lparr>links := links item @ [(rel, item_id target)]\<rparr>"

text \<open>
  The loop over the level-1C items; \<open>aoi_geometry\<close> is \<open>shapely.wkt.loads(AOI_WKT)\<close> and
  \<open>items\<close> the list built so far.
  \<^verbatim>\<open>
  items = []
  for item_l1c in catalog_l1c.get_all_items():
      item_geometry = shapely.geometry.shape(item_l1c.geometry)
      aoi_geometry = shapely.wkt.loads(AOI_WKT)
      geometry = item_geometry.intersection(aoi_geometry)
      if (geometry.area / aoi_geometry.area) > 0.70:
          item = pystac.Item(
              id=item_l1c.datetime.strftime("S2_%Y-%m-%d"),
              geometry=shapely.geometry.mapping(geometry),
              bbox=geometry.bounds,
              datetime=item_l1c.datetime,
              properties={})
          item_l2a = _get_l2a_item(item_l1c, catalog_l2a)
          item.add_link(pystac.Link("item-L1C", item_l1c))
          if item_l2a is not None:
              item.add_link(pystac.Link("item-L2A", item_l2a))
          items.append(item)
  \<close>
\<close>

fun shadow_loop ::
  "('g, 'j, 't) shadow_lib \<Rightarrow> 'g \<Rightarrow> ('j, 't) item list \<Rightarrow> ('j, 't) item list
     \<Rightarrow> py_error + ('j, 't) item list" where
  "shadow_loop S aoi_geometry items [] = Inr items"
| "shadow_loop S aoi_geometry items (item_l1c # rest) =
     (let item_geometry = shape S (geometry item_l1c);
          geom = geom_intersection S item_geometry aoi_geometry
      in
      and_then (truediv (geom_area S geom) (geom_area S aoi_geometry)) (\<lambda>ratio.
      if ratio > 7 / 10 then
        (let item = \<lparr>item_id = strftime S (datetime item_l1c) ''S2_%Y-%m-%d'',
                      datetime = datetime item_l1c,
                      geometry = mapping S geom,
                      bbox = Some (geom_bounds S geom),
                      properties = Map.empty,
                      assets = Map.empty,
                      links = []\<rparr>
         in
         and_then (get_l2a_item S item_l1c) (\<lambda>item_l2a.
         let item1 = add_link ''item-L1C'' item_l1c item;
             item2 = (case item_l2a of None \<Rightarrow> item1 | Some l2a \<Rightarrow> add_link ''item-L2A'' l2a item1)
         in shadow_loop S aoi_geometry (items @ [item2]) rest))
      else shadow_loop S aoi_geometry items rest))"

definition shadow_catalog_items ::
  "('g, 'j, 't) shadow_lib \<Rightarrow> 'g \<Rightarrow> ('j, 't) item list \<Rightarrow> py_error + ('j, 't) item list" where
  "shadow_catalog_items S aoi_geometry catalog_l1c = shadow_loop S aoi_geometry [] catalog_l1c"

section \<open>The frame of the re-linking\<close>

text \<open>
  \<open>only_hrefs_changed item item'\<close>: the two items differ at most in the \<open>href\<close>
  fields of their assets; they have the same asset keys, and every other field of the
  items and of their assets is the same.
\<close>

definition only_hrefs_changed :: "('j, 't) item \<Rightarrow> ('j, 't) item \<Rightarrow> bool" where
  "only_hrefs_changed item item' =
     (item' = item\<lparr>assets := assets item'\<rparr>
      \<and> dom (assets item') = dom (assets item)
      \<and> (\<forall>k a a'. assets item k = Some a \<and> assets item' k = Some a' \<longrightarrow> a' = a\<lparr>href := href a'\<rparr>))"

section \<open>Where an exception comes from\<close>

text \<open>
  \<open>lib_only r\<close>: if \<open>r\<close> is an exception, it was raised inside a library call and not by
  a statement of the notebook.
\<close>

definition lib_only :: "py_error + 'a \<Rightarrow> bool" where
  "lib_only r = (\<forall>e. r = Inl e \<longrightarrow> (\<exists>msg. e = LibraryError msg))"

section \<open>Example data\<close>

text \<open>Concrete inputs at which the theorems below are instantiated.\<close>

definition ex_asset :: "string \<Rightarrow> asset" where
  "ex_asset name = \<lparr>href = ''s3://sentinel-s2-l1c/tiles/5/V/MG/'' @ name @ ''.jp2'',
                    media_type = Some ''image/jp2'', roles = []\<rparr>"

definition ex_item :: "string \<Rightarrow> int \<Rightarrow> string \<Rightarrow> 'j \<Rightarrow> ('j, nat) item" where
  "ex_item ident zone square geom =
     \<lparr>item_id = ident, datetime = 20210329, geometry = geom, bbox = None,
      properties = [''sentinel:utm_zone'' \<mapsto> PInt zone,
                    ''sentinel:latitude_band'' \<mapsto> PStr ''V'',
                    ''sentinel:grid_square'' \<mapsto> PStr square,
                    ''sentinel:product_id'' \<mapsto> PStr (ident @ ''_P''),
                    ''s2:mgrs_tile'' \<mapsto> PStr ''05VMG'',
                    ''platform'' \<mapsto> PStr ''sentinel-2b''],
      assets = [''B01'' \<mapsto> ex_asset ''B01'', ''B02'' \<mapsto> ex_asset ''B02'',
                ''overview'' \<mapsto> ex_asset ''preview''],
      links = []\<rparr>"

text \<open>
  A toy geometry library: a geometry is a finite set of cells, and a bounding box is
  turned into cells by its left edge.
\<close>

definition ex_data_array :: "real \<Rightarrow> unit data_array" where
  "ex_data_array x0 =
     \<lparr>rio_bounds = (x0, 0, x0 + 1, 1), crs_wkt = ''EPSG:32605'', rio_transform = (),
      y_size = 10980, x_size = 10980\<rparr>"

definition ex_from_bounds :: "bounds \<Rightarrow> nat set" where
  "ex_from_bounds b =
     (case b of (x0, y0, x1, y1) \<Rightarrow> if x0 = 0 then {2, 3} else if x0 = 5 then {7} else {4})"

definition ex_get_asset :: "string \<Rightarrow> string + unit data_array" where
  "ex_get_asset ident =
     (if ident = ''A'' then Inr (ex_data_array 0)
      else if ident = ''B'' then Inr (ex_data_array 5)
      else Inr (ex_data_array 9))"

definition ex_tile_lib :: "(nat set, unit) tile_lib" where
  "ex_tile_lib =
     \<lparr>get_asset = ex_get_asset,
      transform_bounds = (\<lambda>da crs. rio_bounds da),
      from_bounds = ex_from_bounds,
      intersects = intersects_points,
      intersection = (\<lambda>a b. a \<inter> b),
      to_crs = (\<lambda>g crs. g),
      unary_union = (\<lambda>gs. \<Union> (set gs)),
      upload = (\<lambda>local remote. Inr ())\<rparr>"

definition ex_rgi_lib :: "(nat set, unit) rgi_lib" where
  "ex_rgi_lib =
     \<lparr>get_asset = ex_get_asset,
      transform_bounds = (\<lambda>da crs. rio_bounds da),
      from_bounds = ex_from_bounds,
      intersects = intersects_points,
      intersection = (\<lambda>a b. a \<inter> b),
      to_crs = (\<lambda>g crs. g),
      unary_union = (\<lambda>gs. \<Union> (set gs)),
      upload = (\<lambda>local remote. Inr ()),
      glob = (\<lambda>pattern. Inr [pattern]),
      rasterize_region = (\<lambda>path tile_id da. Inr ())\<rparr>"

definition ex_gshhs_lib :: "(nat set, unit) gshhs_lib" where
  "ex_gshhs_lib =
     \<lparr>get_asset = ex_get_asset,
      transform_bounds = (\<lambda>da crs. rio_bounds da),
      from_bounds = ex_from_bounds,
      intersects = intersects_points,
      intersection = (\<lambda>a b. a \<inter> b),
      to_crs = (\<lambda>g crs. g),
      unary_union = (\<lambda>gs. \<Union> (set gs)),
      upload = (\<lambda>local remote. Inr ()),
      rasterize_land = (\<lambda>land tile_id da. if land = {} then Inl ''empty shape'' else Inr ())\<rparr>"

definition ex_rgi_index :: "nat set rgi_row list" where
  "ex_rgi_index =
     [\<lparr>rgi_geometry = {3, 4}, RGI_CODE = 1\<rparr>, \<lparr>rgi_geometry = {4, 5, 6}, RGI_CODE = 2\<rparr>]"

definition ex_dem_index :: "nat set dem_row list" where
  "ex_dem_index =
     [\<lparr>dem_geometry = {0, 2}, fileurl = ''t1''\<rparr>,
      \<lparr>dem_geometry = {3, 5}, fileurl = ''t2''\<rparr>,
      \<lparr>dem_geometry = {8}, fileurl = ''t3''\<rparr>]"

text \<open>
  A toy raster library: an archive unpacks into an elevation file and a second file, and
  a raster is the list of the files it was made from.
\<close>

definition ex_raster_lib :: "(string, string list, unit) raster_lib" where
  "ex_raster_lib =
     \<lparr>get_tar_file = (\<lambda>url tmpdir.
        Inr (tmpdir @ [(url @ ''_reg_dem.tif'', url), (url @ ''_matchtag.tif'', url)])),
      open_rasterio = (\<lambda>file. Inr [fst file]),
      merge_arrays = (\<lambda>rs. if rs = [] then Inl ''no rasters to merge'' else Inr (concat rs)),
      reproject = (\<lambda>r crs tr. Inr r),
      clip_box = (\<lambda>r b. Inr r),
      to_raster = (\<lambda>r path. Inr ())\<rparr>"

text \<open>
  A toy manifest and URL library: the manifest lists the metadata file and the images of
  the bands \<open>B01\<close>, \<open>TCI\<close> and \<open>B08\<close>; a second manifest lacks the \<open>TCI\<close> image.
\<close>

definition ex_manifest :: "data_object list" where
  "ex_manifest =
     [\<lparr>ID = Some ''S2_Level-1C_Product_Metadata'', fileLocation = Some (Some ''MTD_MSIL1C.xml'')\<rparr>,
      \<lparr>ID = Some ''IMG_DATA_Band_60m_1_Tile1_Data'', fileLocation = Some (Some ''IMG_DATA/T05VMG_B01.jp2'')\<rparr>,
      \<lparr>ID = Some ''IMG_DATA_Band_TCI_Tile1_Data'', fileLocation = Some (Some ''IMG_DATA/T05VMG_TCI.jp2'')\<rparr>,
      \<lparr>ID = None, fileLocation = None\<rparr>,
      \<lparr>ID = Some ''IMG_DATA_Band_10m_4_Tile1_Data'', fileLocation = Some (Some ''IMG_DATA/T05VMG_B08.jp2'')\<rparr>]"

definition ex_manifest_no_TCI :: "data_object list" where
  "ex_manifest_no_TCI =
     [\<lparr>ID = Some ''IMG_DATA_Band_60m_1_Tile1_Data'', fileLocation = Some (Some ''IMG_DATA/T05VMG_B01.jp2'')\<rparr>]"

definition ex_url_lib :: "data_object list \<Rightarrow> url_lib" where
  "ex_url_lib manifest =
     \<lparr>get_manifest = (\<lambda>u. Inr manifest),
      url_div = (\<lambda>u part. u @ ''/'' @ part),
      stem = (\<lambda>u. takeWhile (\<lambda>c. c \<noteq> CHR ''.'') (last_field CHR ''/'' u)),
      as_uri = (\<lambda>u. u)\<rparr>"

text \<open>
  A toy geometry library on a line: a geometry is an interval, its area the length of the
  interval.
\<close>

definition ex_shadow_lib :: "(int \<times> int, int \<times> int, nat) shadow_lib" where
  "ex_shadow_lib =
     \<lparr>shape = (\<lambda>j. j),
      mapping = (\<lambda>g. g),
      geom_intersection = (\<lambda>a b. (max (fst a) (fst b), min (snd a) (snd b))),
      geom_area = (\<lambda>g. if fst g < snd g then real_of_int (snd g - fst g) else 0),
      geom_bounds = (\<lambda>g. (real_of_int (fst g), 0, real_of_int (snd g), 1)),
      strftime = (\<lambda>t fmt. if fmt = ''%Y%m%d'' then ''20210329'' else ''S2_2021-03-29''),
      capitalize = (\<lambda>s. if s = ''b'' then ''B'' else s),
      int_of = (\<lambda>s. if s = ''05'' then Some 5 else None),
      get_item = (\<lambda>ident. if ident = ''S2B_5VMG_20210329_0_L2A''
                           then Some (ex_item ident 5 ''MG'' (0, 10)) else None)\<rparr>"

section \<open>Tile enumeration: properties\<close>

lemma str_properties_cong:
  "(\<forall>k \<in> set ks. p1 k = p2 k) \<Longrightarrow> str_properties p1 ks = str_properties p2 ks"
  by (induction ks) (auto simp: getitem_def split: option.splits sum.splits)

lemma str_properties_total:
  "(\<forall>k \<in> set ks. props k \<noteq> None) \<Longrightarrow> \<exists>ss. str_properties props ks = Inr ss"
  by (induction ks) (auto simp: getitem_def split: option.splits sum.splits)

lemma tile_id_total:
  "(\<forall>k \<in> set TILE_ID_KEYS. properties item k \<noteq> None) \<Longrightarrow> \<exists>tid. get_sentinel2_tile_id item = Inr tid"
  using str_properties_total [of TILE_ID_KEYS "properties item"]
  by (auto simp: get_sentinel2_tile_id_def)

lemma tile_id_concat:
  "properties item ''sentinel:utm_zone'' = Some a \<Longrightarrow>
   properties item ''sentinel:latitude_band'' = Some b \<Longrightarrow>
   properties item ''sentinel:grid_square'' = Some c \<Longrightarrow>
   get_sentinel2_tile_id item = Inr (py_str a @ py_str b @ py_str c)"
  by (simp add: get_sentinel2_tile_id_def TILE_ID_KEYS_def getitem_def)

lemma tile_id_cong:
  "(\<forall>k \<in> set TILE_ID_KEYS. properties item1 k = properties item2 k) \<Longrightarrow>
   get_sentinel2_tile_id item1 = get_sentinel2_tile_id item2"
  using str_properties_cong [of TILE_ID_KEYS "properties item1" "properties item2"]
  by (simp add: get_sentinel2_tile_id_def)

text \<open>
  The invariant of the enumeration loop, for any dictionary \<open>acc\<close> built so far: the keys
  stay distinct, the keys are those of \<open>acc\<close> and the identifiers of the items seen, and
  a key is mapped to its entry in \<open>acc\<close> or else to the first item bearing it.
\<close>

lemma tiles_loop_inv:
  "tiles_loop acc items = Inr tiles \<Longrightarrow> distinct (map fst acc) \<Longrightarrow>
     distinct (map fst tiles) \<and>
     fst ` set tiles = fst ` set acc \<union> {tid. \<exists>i \<in> set items. get_sentinel2_tile_id i = Inr tid} \<and>
     (\<forall>tid. map_of tiles tid =
        (case map_of acc tid of Some x \<Rightarrow> Some x
         | None \<Rightarrow> find (\<lambda>i. get_sentinel2_tile_id i = Inr tid) items))"
proof (induction items arbitrary: acc)
  case Nil
  then show ?case by (auto split: option.splits)
next
  case (Cons item rest)
  then obtain tid where tid: "get_sentinel2_tile_id item = Inr tid"
    by (auto split: sum.splits)
  show ?case
  proof (cases "tid \<in> fst ` set acc")
    case True
    with Cons.prems tid have run: "tiles_loop acc rest = Inr tiles" by simp
    from True have "map_of acc tid \<noteq> None"
      by (simp add: map_of_eq_None_iff)
    with Cons.IH [OF run Cons.prems(2)] tid True show ?thesis
      by (auto split: option.splits)
  next
    case False
    with Cons.prems tid have run: "tiles_loop (AList.update tid item acc) rest = Inr tiles" by simp
    have d: "distinct (map fst (AList.update tid item acc))"
      using Cons.prems(2) by (rule AList.distinct_update)
    from False have none: "map_of acc tid = None"
      by (simp add: map_of_eq_None_iff)
    from Cons.IH [OF run d] tid none show ?thesis
      by (auto simp: AList.dom_update AList.update_conv' split: option.splits)
  qed
qed

lemma tiles_loop_total:
  "(\<forall>i \<in> set items. \<forall>k \<in> set TILE_ID_KEYS. properties i k \<noteq> None) \<Longrightarrow>
   \<exists>tiles. tiles_loop acc items = Inr tiles"
proof (induction items arbitrary: acc)
  case Nil
  then show ?case by simp
next
  case (Cons item rest)
  then obtain tid where "get_sentinel2_tile_id item = Inr tid"
    using tile_id_total [of item] by auto
  with Cons show ?case by simp
qed

text \<open>
  Claim C6.  The tile identifier of an item is the concatenation of the string forms of
  its utm-zone, latitude-band and grid-square property values, so items that agree on the
  three properties have the same identifier.  The enumeration of a catalog whose items all
  carry the three properties returns; and whenever it returns, the keys of the resulting
  dictionary are pairwise distinct, they are exactly the identifiers of the catalog's
  items, and each key is mapped to the first item, in iteration order, bearing it.
\<close>

theorem tile_enumeration:
  "(properties item ''sentinel:utm_zone'' = Some a \<and>
    properties item ''sentinel:latitude_band'' = Some b \<and>
    properties item ''sentinel:grid_square'' = Some c
      \<longrightarrow> get_sentinel2_tile_id item = Inr (py_str a @ py_str b @ py_str c))
   \<and> ((\<forall>k \<in> set TILE_ID_KEYS. properties item1 k = properties item2 k)
      \<longrightarrow> get_sentinel2_tile_id item1 = get_sentinel2_tile_id item2)
   \<and> ((\<forall>i \<in> set items. \<forall>k \<in> set TILE_ID_KEYS. properties i k \<noteq> None)
      \<longrightarrow> (\<exists>tiles. enumerate_tiles items = Inr tiles))
   \<and> (enumerate_tiles items = Inr tiles
      \<longrightarrow> distinct (map fst tiles)
        \<and> set (map fst tiles) = {tid. \<exists>i \<in> set items. get_sentinel2_tile_id i = Inr tid}
        \<and> (\<forall>tid. map_of tiles tid = find (\<lambda>i. get_sentinel2_tile_id i = Inr tid) items))"
proof (intro conjI impI)
  assume "properties item ''sentinel:utm_zone'' = Some a \<and>
    properties item ''sentinel:latitude_band'' = Some b \<and>
    properties item ''sentinel:grid_square'' = Some c"
  then show "get_sentinel2_tile_id item = Inr (py_str a @ py_str b @ py_str c)"
    by (simp add: tile_id_concat)
next
  assume "\<forall>k \<in> set TILE_ID_KEYS. properties item1 k = properties item2 k"
  then show "get_sentinel2_tile_id item1 = get_sentinel2_tile_id item2"
    by (rule tile_id_cong)
next
  assume "\<forall>i \<in> set items. \<forall>k \<in> set TILE_ID_KEYS. properties i k \<noteq> None"
  then show "\<exists>tiles. enumerate_tiles items = Inr tiles"
    unfolding enumerate_tiles_def by (rule tiles_loop_total)
next
  assume run: "enumerate_tiles items = Inr tiles"
  then have r: "tiles_loop [] items = Inr tiles"
    by (simp add: enumerate_tiles_def)
  note inv = tiles_loop_inv [OF r]
  from inv show "distinct (map fst tiles)" by simp
  from inv show "set (map fst tiles) = {tid. \<exists>i \<in> set items. get_sentinel2_tile_id i = Inr tid}" by simp
  from inv show "\<forall>tid. map_of tiles tid = find (\<lambda>i. get_sentinel2_tile_id i = Inr tid) items" by simp
qed

lemma ex_tile_id_5: "get_sentinel2_tile_id (ex_item x 5 ''MG'' g) = Inr ''5VMG''"
  by (simp add: get_sentinel2_tile_id_def TILE_ID_KEYS_def getitem_def ex_item_def
      str_int_def str_nat.simps digit_char_def)

lemma ex_tile_id_6: "get_sentinel2_tile_id (ex_item x 6 ''MG'' g) = Inr ''6VMG''"
  by (simp add: get_sentinel2_tile_id_def TILE_ID_KEYS_def getitem_def ex_item_def
      str_int_def str_nat.simps digit_char_def)

lemma ex_enumerate_tiles:
  "enumerate_tiles [ex_item ''A'' 5 ''MG'' g, ex_item ''B'' 6 ''MG'' g, ex_item ''C'' 5 ''MG'' g]
     = Inr [(''5VMG'', ex_item ''A'' 5 ''MG'' g), (''6VMG'', ex_item ''B'' 6 ''MG'' g)]"
  by (simp add: enumerate_tiles_def ex_tile_id_5 ex_tile_id_6)

text \<open>
  Three scenes, the first and the third on tile \<open>5VMG\<close>: the enumeration keeps the first
  scene of each tile.
\<close>

theorem tile_enumeration_witness:
  "get_sentinel2_tile_id (ex_item ''A'' 5 ''MG'' ()) = Inr ''5VMG''
   \<and> get_sentinel2_tile_id (ex_item ''A'' 5 ''MG'' ()) = get_sentinel2_tile_id (ex_item ''C'' 5 ''MG'' ())
   \<and> enumerate_tiles [ex_item ''A'' 5 ''MG'' (), ex_item ''B'' 6 ''MG'' (), ex_item ''C'' 5 ''MG'' ()]
      = Inr [(''5VMG'', ex_item ''A'' 5 ''MG'' ()), (''6VMG'', ex_item ''B'' 6 ''MG'' ())]
   \<and> map_of [(''5VMG'', ex_item ''A'' 5 ''MG'' ()), (''6VMG'', ex_item ''B'' 6 ''MG'' ())] ''5VMG''
      = find (\<lambda>i. get_sentinel2_tile_id i = Inr ''5VMG'')
          [ex_item ''A'' 5 ''MG'' (), ex_item ''B'' 6 ''MG'' (), ex_item ''C'' 5 ''MG'' ()]"
proof -
  let ?A = "ex_item ''A'' 5 ''MG'' ()" and ?B = "ex_item ''B'' 6 ''MG'' ()"
    and ?C = "ex_item ''C'' 5 ''MG'' ()"
  let ?T = "[(''5VMG'', ?A), (''6VMG'', ?B)]"
  note t = tile_enumeration [of ?A "PInt 5" "PStr ''V''" "PStr ''MG''" ?A ?C "[?A, ?B, ?C]" ?T]
  have props: "properties ?A ''sentinel:utm_zone'' = Some (PInt 5) \<and>
    properties ?A ''sentinel:latitude_band'' = Some (PStr ''V'') \<and>
    properties ?A ''sentinel:grid_square'' = Some (PStr ''MG'')"
    by (simp add: ex_item_def)
  have same: "\<forall>k \<in> set TILE_ID_KEYS. properties ?A k = properties ?C k"
    by (simp add: ex_item_def TILE_ID_KEYS_def)
  have run: "enumerate_tiles [?A, ?B, ?C] = Inr ?T"
    by (rule ex_enumerate_tiles)
  from t props
  have 1: "get_sentinel2_tile_id ?A = Inr (py_str (PInt 5) @ py_str (PStr ''V'') @ py_str (PStr ''MG''))"
    by blast
  from t same have 2: "get_sentinel2_tile_id ?A = get_sentinel2_tile_id ?C"
    by blast
  from t run
  have 3: "\<forall>tid. map_of ?T tid = find (\<lambda>i. get_sentinel2_tile_id i = Inr tid) [?A, ?B, ?C]"
    by blast
  from 1 have "get_sentinel2_tile_id ?A = Inr ''5VMG''"
    by (simp add: str_int_def str_nat.simps digit_char_def)
  with 2 3 run show ?thesis by blast
qed

section \<open>Source lookup: properties\<close>

lemma select_mask_map: "select_mask rows (map P rows) = filter P rows"
  by (induction rows) (auto simp: select_mask_def)

lemma intersects_mask_map:
  "intersects_mask I (map f rows) g = map (\<lambda>row. I (f row) g) rows"
  by (simp add: intersects_mask_def comp_def)

lemma RGI_regions_filter:
  "get_itersecting_RGI_regions I index g
     = map RGI_CODE (filter (\<lambda>row. I (rgi_geometry row) g) index)"
  by (simp add: get_itersecting_RGI_regions_def intersects_mask_map select_mask_map)

lemma DEM_tile_URLs_filter:
  "get_itersecting_DEM_tile_URLs I index g
     = map fileurl (filter (\<lambda>row. I (dem_geometry row) g) index)"
  by (simp add: get_itersecting_DEM_tile_URLs_def intersects_mask_map select_mask_map)

text \<open>
  Claim C4.  The rows a lookup selects are the rows of the index whose geometry
  intersects the footprint, in the order of the index: the glacier lookup returns the
  codes of these rows and the elevation lookup their URLs, for any predicate \<open>I\<close> the
  geometry library computes.  With the predicate read as "the two point sets share a
  point", the selected rows are exactly the rows whose geometry has a non-empty
  intersection with the footprint.
\<close>

theorem intersecting_rows_exact:
  "get_itersecting_RGI_regions I rgi_index g
     = map RGI_CODE (filter (\<lambda>row. I (rgi_geometry row) g) rgi_index)
   \<and> get_itersecting_DEM_tile_URLs I' dem_index g'
     = map fileurl (filter (\<lambda>row. I' (dem_geometry row) g') dem_index)
   \<and> set (select_mask rgi_rows (intersects_mask intersects_points (map rgi_geometry rgi_rows) p))
     = {row \<in> set rgi_rows. rgi_geometry row \<inter> p \<noteq> {}}
   \<and> set (select_mask dem_rows (intersects_mask intersects_points (map dem_geometry dem_rows) q))
     = {row \<in> set dem_rows. dem_geometry row \<inter> q \<noteq> {}}"
  by (simp add: RGI_regions_filter DEM_tile_URLs_filter intersects_mask_map select_mask_map
      intersects_points_def)

lemma ex_rgi_matches_A:
  "filter (\<lambda>row. intersects_points (rgi_geometry row) {2, 3}) ex_rgi_index
     = [\<lparr>rgi_geometry = {3, 4}, RGI_CODE = 1\<rparr>]"
  by (simp add: ex_rgi_index_def intersects_points_def)

lemma ex_rgi_matches_B:
  "filter (\<lambda>row. intersects_points (rgi_geometry row) {7}) ex_rgi_index = []"
  by (simp add: ex_rgi_index_def intersects_points_def)

lemma ex_rgi_matches_C:
  "filter (\<lambda>row. intersects_points (rgi_geometry row) {4}) ex_rgi_index = ex_rgi_index"
  by (simp add: ex_rgi_index_def intersects_points_def)

lemma ex_dem_matches_A:
  "filter (\<lambda>row. intersects_points (dem_geometry row) {2, 3}) ex_dem_index
     = [\<lparr>dem_geometry = {0, 2}, fileurl = ''t1''\<rparr>, \<lparr>dem_geometry = {3, 5}, fileurl = ''t2''\<rparr>]"
  by (simp add: ex_dem_index_def intersects_points_def)

theorem intersecting_rows_exact_witness:
  "get_itersecting_RGI_regions intersects_points ex_rgi_index {4} = [1, 2]
   \<and> get_itersecting_RGI_regions intersects_points ex_rgi_index {7} = []
   \<and> get_itersecting_DEM_tile_URLs intersects_points ex_dem_index {2, 3} = [''t1'', ''t2'']"
proof -
  have "get_itersecting_RGI_regions intersects_points ex_rgi_index {4}
      = map RGI_CODE (filter (\<lambda>row. intersects_points (rgi_geometry row) {4}) ex_rgi_index)"
    by (rule intersecting_rows_exact [THEN conjunct1])
  also have "\<dots> = [1, 2]"
    unfolding ex_rgi_matches_C by (simp add: ex_rgi_index_def)
  finally have 1: "get_itersecting_RGI_regions intersects_points ex_rgi_index {4} = [1, 2]" .
  have "get_itersecting_RGI_regions intersects_points ex_rgi_index {7}
      = map RGI_CODE (filter (\<lambda>row. intersects_points (rgi_geometry row) {7}) ex_rgi_index)"
    by (rule intersecting_rows_exact [THEN conjunct1])
  also have "\<dots> = []"
    unfolding ex_rgi_matches_B by simp
  finally have 2: "get_itersecting_RGI_regions intersects_points ex_rgi_index {7} = []" .
  have "get_itersecting_DEM_tile_URLs intersects_points ex_dem_index {2, 3}
      = map fileurl (filter (\<lambda>row. intersects_points (dem_geometry row) {2, 3}) ex_dem_index)"
    by (rule intersecting_rows_exact [THEN conjunct2, THEN conjunct1])
  also have "\<dots> = [''t1'', ''t2'']"
    unfolding ex_dem_matches_A by simp
  finally have 3: "get_itersecting_DEM_tile_URLs intersects_points ex_dem_index {2, 3} = [''t1'', ''t2'']" .
  from 1 2 3 show ?thesis by simp
qed

section \<open>The glacier resolver: properties\<close>

lemma rgi_lookup_one:
  "filter (\<lambda>row. I (rgi_geometry row) g) index = [row] \<Longrightarrow>
   rgi_lookup I index g = Inr (RGI_CODE row)"
  by (simp add: rgi_lookup_def RGI_regions_filter iloc0_def)

lemma rgi_lookup_not_one:
  "length (filter (\<lambda>row. I (rgi_geometry row) g) index) \<noteq> 1 \<Longrightarrow>
   rgi_lookup I index g = Inl AssertionError"
  by (simp add: rgi_lookup_def RGI_regions_filter)

lemma rgi_lookup_error:
  "rgi_lookup I index g = Inl e \<Longrightarrow>
   e = AssertionError \<and> length (filter (\<lambda>row. I (rgi_geometry row) g) index) \<noteq> 1"
  by (auto simp: rgi_lookup_def RGI_regions_filter iloc0_def Let_def length_Suc_conv
      split: if_splits list.splits)

lemma rgi_tile_step_assert:
  "get_asset L (item_id item) = Inr da \<Longrightarrow>
   length (filter (\<lambda>row. intersects L (rgi_geometry row)
                          (from_bounds L (transform_bounds L da crs))) index) \<noteq> 1 \<Longrightarrow>
   rgi_tile_step L crs index (tile_id, item) = Inl AssertionError"
  by (simp add: rgi_tile_step_def and_then_def lib_def rgi_lookup_not_one)

lemma tile_loop_abort:
  "list_all2 (\<lambda>t out. step t = Inr out) before outs \<Longrightarrow> step tile = Inl e \<Longrightarrow>
   tile_loop step (before @ tile # rest) = (outs, Some e)"
  by (induction before outs rule: list_all2_induct) auto

lemma ex_rgi_step_A:
  "rgi_tile_step ex_rgi_lib ''EPSG:4326'' ex_rgi_index (''5VMG'', ex_item ''A'' 5 ''MG'' ())
     = Inr ''5VMG.tif''"
proof -
  have "rgi_lookup intersects_points ex_rgi_index {2, 3} = Inr 1"
    using rgi_lookup_one [where I = intersects_points and g = "{2, 3}" and index = ex_rgi_index,
        OF ex_rgi_matches_A]
    by simp
  then show ?thesis
    by (simp add: rgi_tile_step_def and_then_def lib_def pop_def
        ex_rgi_lib_def ex_item_def ex_get_asset_def ex_data_array_def ex_from_bounds_def)
qed

lemma ex_get_asset_B: "get_asset ex_rgi_lib (item_id (ex_item ''B'' 6 ''MG'' ())) = Inr (ex_data_array 5)"
  by (simp add: ex_rgi_lib_def ex_item_def ex_get_asset_def)

lemma ex_rgi_footprint_B:
  "from_bounds ex_rgi_lib (transform_bounds ex_rgi_lib (ex_data_array 5) crs) = {7}"
  by (simp add: ex_rgi_lib_def ex_data_array_def ex_from_bounds_def)

lemma ex_intersects: "intersects ex_rgi_lib = intersects_points"
  by (simp add: ex_rgi_lib_def)

text \<open>
  Claim C1.  The resolver of the glacier notebook returns the code of the matching region
  when exactly one region of the index intersects the footprint, and raises (the
  assertion) when none or several do.  In the loop body the exception leaves the body
  before any file is looked up, rasterised or uploaded for the tile, and it ends the loop
  over the tiles: only the tiles before it have been processed.
\<close>

theorem rgi_resolver_one_match_or_error:
  "(filter (\<lambda>row. I (rgi_geometry row) g) rgi_index = [row]
      \<longrightarrow> rgi_lookup I rgi_index g = Inr (RGI_CODE row))
   \<and> (length (filter (\<lambda>row. I (rgi_geometry row) g) rgi_index) \<noteq> 1
      \<longrightarrow> rgi_lookup I rgi_index g = Inl AssertionError)
   \<and> (get_asset L (item_id item) = Inr da
      \<and> length (filter (\<lambda>row. intersects L (rgi_geometry row)
                               (from_bounds L (transform_bounds L da crs))) index) \<noteq> 1
      \<longrightarrow> rgi_tile_step L crs index (tile_id, item) = Inl AssertionError)
   \<and> (list_all2 (\<lambda>t out. rgi_tile_step L crs index t = Inr out) before outs
      \<and> rgi_tile_step L crs index tile = Inl e
      \<longrightarrow> rgi_notebook L crs index (before @ tile # rest) = (outs, Some e))"
proof (intro conjI impI)
  assume "filter (\<lambda>row. I (rgi_geometry row) g) rgi_index = [row]"
  then show "rgi_lookup I rgi_index g = Inr (RGI_CODE row)"
    by (rule rgi_lookup_one)
next
  assume "length (filter (\<lambda>row. I (rgi_geometry row) g) rgi_index) \<noteq> 1"
  then show "rgi_lookup I rgi_index g = Inl AssertionError"
    by (rule rgi_lookup_not_one)
next
  assume "get_asset L (item_id item) = Inr da
      \<and> length (filter (\<lambda>row. intersects L (rgi_geometry row)
                               (from_bounds L (transform_bounds L da crs))) index) \<noteq> 1"
  then show "rgi_tile_step L crs index (tile_id, item) = Inl AssertionError"
    by (simp add: rgi_tile_step_assert)
next
  assume "list_all2 (\<lambda>t out. rgi_tile_step L crs index t = Inr out) before outs
      \<and> rgi_tile_step L crs index tile = Inl e"
  then show "rgi_notebook L crs index (before @ tile # rest) = (outs, Some e)"
    unfolding rgi_notebook_def by (simp add: tile_loop_abort)
qed

text \<open>
  Three tiles: the footprint of the first meets one region, that of the second none,
  that of the third both.  The notebook uploads the raster of the first tile and stops at
  the second.
\<close>

theorem rgi_resolver_one_match_or_error_witness:
  "rgi_lookup intersects_points ex_rgi_index {2, 3} = Inr 1
   \<and> rgi_lookup intersects_points ex_rgi_index {7} = Inl AssertionError
   \<and> rgi_lookup intersects_points ex_rgi_index {4} = Inl AssertionError
   \<and> rgi_tile_step ex_rgi_lib ''EPSG:4326'' ex_rgi_index (''6VMG'', ex_item ''B'' 6 ''MG'' ())
       = Inl AssertionError
   \<and> rgi_notebook ex_rgi_lib ''EPSG:4326'' ex_rgi_index
        [(''5VMG'', ex_item ''A'' 5 ''MG'' ()), (''6VMG'', ex_item ''B'' 6 ''MG'' ()),
         (''7VMG'', ex_item ''C'' 7 ''MG'' ())]
       = ([''5VMG.tif''], Some AssertionError)"
proof -
  let ?A = "(''5VMG'', ex_item ''A'' 5 ''MG'' ())" and ?B = "(''6VMG'', ex_item ''B'' 6 ''MG'' ())"
    and ?C = "(''7VMG'', ex_item ''C'' 7 ''MG'' ())"
  note one = rgi_resolver_one_match_or_error
    [where I = intersects_points and g = "{2, 3}" and rgi_index = ex_rgi_index,
      THEN conjunct1, rule_format]
  note other = rgi_resolver_one_match_or_error [THEN conjunct2, THEN conjunct1, rule_format]
  note step = rgi_resolver_one_match_or_error
    [THEN conjunct2, THEN conjunct2, THEN conjunct1, rule_format]
  note loop = rgi_resolver_one_match_or_error
    [THEN conjunct2, THEN conjunct2, THEN conjunct2, rule_format]
  have none: "length (filter (\<lambda>row. intersects ex_rgi_lib (rgi_geometry row)
      (from_bounds ex_rgi_lib (transform_bounds ex_rgi_lib (ex_data_array 5) ''EPSG:4326''))) ex_rgi_index) \<noteq> 1"
    unfolding ex_rgi_footprint_B ex_intersects ex_rgi_matches_B by simp
  have "rgi_lookup intersects_points ex_rgi_index {2, 3}
      = Inr (RGI_CODE \<lparr>rgi_geometry = {3, 4::nat}, RGI_CODE = 1\<rparr>)"
    using ex_rgi_matches_A by (rule one)
  then have 1: "rgi_lookup intersects_points ex_rgi_index {2, 3} = Inr 1" by simp
  have "length (filter (\<lambda>row. intersects_points (rgi_geometry row) {7}) ex_rgi_index) \<noteq> 1"
    unfolding ex_rgi_matches_B by simp
  then have 2: "rgi_lookup intersects_points ex_rgi_index {7} = Inl AssertionError"
    by (rule other)
  have "length (filter (\<lambda>row. intersects_points (rgi_geometry row) {4}) ex_rgi_index) \<noteq> 1"
    unfolding ex_rgi_matches_C by (simp add: ex_rgi_index_def)
  then have 3: "rgi_lookup intersects_points ex_rgi_index {4} = Inl AssertionError"
    by (rule other)
  have 4: "rgi_tile_step ex_rgi_lib ''EPSG:4326'' ex_rgi_index ?B = Inl AssertionError"
    using ex_get_asset_B none by (intro step conjI)
  have before: "list_all2 (\<lambda>t out. rgi_tile_step ex_rgi_lib ''EPSG:4326'' ex_rgi_index t = Inr out)
      [?A] [''5VMG.tif'']"
    by (simp add: ex_rgi_step_A)
  have "rgi_notebook ex_rgi_lib ''EPSG:4326'' ex_rgi_index ([?A] @ ?B # [?C])
      = ([''5VMG.tif''], Some AssertionError)"
    using before 4 by (intro loop conjI)
  then have 5: "rgi_notebook ex_rgi_lib ''EPSG:4326'' ex_rgi_index [?A, ?B, ?C]
      = ([''5VMG.tif''], Some AssertionError)"
    by simp
  from 1 2 3 4 5 show ?thesis by (intro conjI)
qed

text \<open>
  Claim C2 says that a footprint matching no region passes the assertion and fails later
  with a lookup error.  In the examples the footprint of the second tile matches no
  region, and both the resolver and the loop body raise the \<open>AssertionError\<close>, not
  an \<open>IndexError\<close> or a \<open>KeyError\<close>.
\<close>

theorem rgi_zero_match_counterexample:
  "get_itersecting_RGI_regions intersects_points ex_rgi_index {7} = []
   \<and> rgi_lookup intersects_points ex_rgi_index {7} = Inl AssertionError
   \<and> rgi_lookup intersects_points ex_rgi_index {7} \<noteq> Inl IndexError
   \<and> rgi_lookup intersects_points ex_rgi_index {7} \<noteq> Inl KeyError
   \<and> rgi_tile_step ex_rgi_lib ''EPSG:4326'' ex_rgi_index (''6VMG'', ex_item ''B'' 6 ''MG'' ())
       = Inl AssertionError"
proof -
  have none: "length (filter (\<lambda>row. intersects ex_rgi_lib (rgi_geometry row)
      (from_bounds ex_rgi_lib (transform_bounds ex_rgi_lib (ex_data_array 5) ''EPSG:4326''))) ex_rgi_index) \<noteq> 1"
    unfolding ex_rgi_footprint_B ex_intersects ex_rgi_matches_B by simp
  have "rgi_tile_step ex_rgi_lib ''EPSG:4326'' ex_rgi_index (''6VMG'', ex_item ''B'' 6 ''MG'' ())
       = Inl AssertionError"
    using ex_get_asset_B none by (rule rgi_tile_step_assert)
  moreover have "get_itersecting_RGI_regions intersects_points ex_rgi_index {7} = []"
    unfolding RGI_regions_filter ex_rgi_matches_B by simp
  moreover have "rgi_lookup intersects_points ex_rgi_index {7} = Inl AssertionError"
    by (rule rgi_lookup_not_one) (simp add: ex_rgi_matches_B [simplified])
  ultimately show ?thesis by simp
qed

text \<open>
  Claim C2, as the code has it.  The assertion is \<open>len(rgi_codes) == 1\<close>: the only
  exception the resolver raises is the \<open>AssertionError\<close>; it is raised when no region
  matches the footprint as it is when several do, and then the loop body raises it as
  well.  The lookup \<open>rgi_codes.iloc[0]\<close> is never reached with an empty column.
\<close>

theorem rgi_resolver_failure_is_assertion:
  "(rgi_lookup I rgi_index g = Inl e \<longrightarrow> e = AssertionError)
   \<and> (filter (\<lambda>row. I (rgi_geometry row) g) rgi_index = []
      \<longrightarrow> rgi_lookup I rgi_index g = Inl AssertionError)
   \<and> (1 < length (filter (\<lambda>row. I (rgi_geometry row) g) rgi_index)
      \<longrightarrow> rgi_lookup I rgi_index g = Inl AssertionError)
   \<and> (get_asset L (item_id item) = Inr da
      \<and> filter (\<lambda>row. intersects L (rgi_geometry row)
                       (from_bounds L (transform_bounds L da crs))) index = []
      \<longrightarrow> rgi_tile_step L crs index (tile_id, item) = Inl AssertionError)"
proof (intro conjI impI)
  assume "rgi_lookup I rgi_index g = Inl e"
  then show "e = AssertionError"
    by (simp add: rgi_lookup_error)
next
  assume "filter (\<lambda>row. I (rgi_geometry row) g) rgi_index = []"
  then show "rgi_lookup I rgi_index g = Inl AssertionError"
    by (simp add: rgi_lookup_not_one)
next
  assume "1 < length (filter (\<lambda>row. I (rgi_geometry row) g) rgi_index)"
  then show "rgi_lookup I rgi_index g = Inl AssertionError"
    by (simp add: rgi_lookup_not_one)
next
  assume "get_asset L (item_id item) = Inr da
      \<and> filter (\<lambda>row. intersects L (rgi_geometry row)
                       (from_bounds L (transform_bounds L da crs))) index = []"
  then show "rgi_tile_step L crs index (tile_id, item) = Inl AssertionError"
    by (simp add: rgi_tile_step_assert)
qed

text \<open>The second tile of the examples matches no region, the third matches two.\<close>

theorem rgi_resolver_failure_is_assertion_witness:
  "filter (\<lambda>row. intersects_points (rgi_geometry row) {7}) ex_rgi_index = []
   \<and> rgi_lookup intersects_points ex_rgi_index {7} = Inl AssertionError
   \<and> 1 < length (filter (\<lambda>row. intersects_points (rgi_geometry row) {4}) ex_rgi_index)
   \<and> rgi_lookup intersects_points ex_rgi_index {4} = Inl AssertionError
   \<and> get_asset ex_rgi_lib (item_id (ex_item ''B'' 6 ''MG'' ())) = Inr (ex_data_array 5)
   \<and> rgi_tile_step ex_rgi_lib ''EPSG:4326'' ex_rgi_index (''6VMG'', ex_item ''B'' 6 ''MG'' ())
       = Inl AssertionError"
proof -
  note zero = rgi_resolver_failure_is_assertion [THEN conjunct2, THEN conjunct1, rule_format]
  note several = rgi_resolver_failure_is_assertion
    [THEN conjunct2, THEN conjunct2, THEN conjunct1, rule_format]
  note step = rgi_resolver_failure_is_assertion
    [THEN conjunct2, THEN conjunct2, THEN conjunct2, rule_format]
  have two: "1 < length (filter (\<lambda>row. intersects_points (rgi_geometry row) {4}) ex_rgi_index)"
    unfolding ex_rgi_matches_C by (simp add: ex_rgi_index_def)
  have none: "filter (\<lambda>row. intersects ex_rgi_lib (rgi_geometry row)
      (from_bounds ex_rgi_lib (transform_bounds ex_rgi_lib (ex_data_array 5) ''EPSG:4326''))) ex_rgi_index = []"
    unfolding ex_rgi_footprint_B ex_intersects ex_rgi_matches_B by simp
  have 1: "rgi_lookup intersects_points ex_rgi_index {7} = Inl AssertionError"
    using ex_rgi_matches_B by (rule zero)
  have 2: "rgi_lookup intersects_points ex_rgi_index {4} = Inl AssertionError"
    using two by (rule several)
  have 3: "rgi_tile_step ex_rgi_lib ''EPSG:4326'' ex_rgi_index (''6VMG'', ex_item ''B'' 6 ''MG'' ())
       = Inl AssertionError"
    using ex_get_asset_B none by (intro step conjI)
  from ex_rgi_matches_B 1 two 2 ex_get_asset_B 3 show ?thesis by (intro conjI)
qed

section \<open>The elevation and coastline notebooks: properties\<close>

lemma lib_only_lib: "lib_only (lib r)"
  by (cases r) (simp_all add: lib_only_def lib_def)

lemma lib_only_Inr: "lib_only (Inr v)"
  by (simp add: lib_only_def)

lemma lib_only_and_then:
  "lib_only r \<Longrightarrow> (\<And>v. lib_only (f v)) \<Longrightarrow> lib_only (and_then r f)"
  by (cases r) (auto simp: lib_only_def and_then_def)

lemma lib_only_not_assertion: "lib_only r \<Longrightarrow> r \<noteq> Inl AssertionError"
  by (auto simp: lib_only_def)

lemma then_log_Inl: "then_log (Inl e, calls) f = (Inl e, calls)"
  by (simp add: then_log_def)

lemma then_log_Inr: "then_log (Inr v, calls) f = (fst (f v), calls @ snd (f v))"
  by (simp add: then_log_def split: prod.splits)

lemma lib_only_call: "lib_only (fst (call c r))"
  by (simp add: call_def lib_only_lib)

lemma lib_only_then_log:
  assumes "lib_only (fst m)" and "\<And>v. lib_only (fst (f v))"
  shows "lib_only (fst (then_log m f))"
proof (cases m)
  case (Pair r calls)
  show ?thesis
  proof (cases r)
    case (Inl e)
    with Pair assms(1) show ?thesis by (simp add: then_log_Inl lib_only_def)
  next
    case (Inr v)
    with Pair assms(2) [of v] show ?thesis by (simp add: then_log_Inr)
  qed
qed

lemma lib_only_download_loop: "lib_only (fst (download_loop R urls tmpdir))"
  by (induction urls arbitrary: tmpdir)
    (auto intro!: lib_only_then_log lib_only_call simp: lib_only_Inr)

lemma lib_only_open_all: "lib_only (fst (open_all R fs))"
  by (induction fs) (auto intro!: lib_only_then_log lib_only_call simp: lib_only_Inr)

lemma lib_only_download_and_mosaic:
  "lib_only (fst (download_and_mosaic R urls bbx crs transform))"
  unfolding download_and_mosaic_def
  by (intro lib_only_then_log lib_only_call lib_only_download_loop lib_only_open_all)

lemma lib_only_dem_tile_step: "lib_only (dem_tile_step L R index tile)"
  unfolding dem_tile_step_def Let_def
  by (cases tile)
    (auto intro!: lib_only_and_then lib_only_lib lib_only_download_and_mosaic lib_only_Inr)

lemma lib_only_gshhs_tile_step: "lib_only (gshhs_tile_step L crs gshhs tile)"
  unfolding gshhs_tile_step_def Let_def
  by (cases tile) (auto intro!: lib_only_and_then lib_only_lib lib_only_Inr)

lemma and_then_Inr: "and_then r f = Inr w \<longleftrightarrow> (\<exists>v. r = Inr v \<and> f v = Inr w)"
  by (cases r) (auto simp: and_then_def)

lemma lib_Inr: "lib r = Inr v \<longleftrightarrow> r = Inr v"
  by (cases r) (auto simp: lib_def)

lemma DEM_tile_URLs_to_crs:
  "get_itersecting_DEM_tile_URLs I (index_to_crs L index crs) g
     = map fileurl (filter (\<lambda>row. I (to_crs L (dem_geometry row) crs) g) index)"
  by (simp add: DEM_tile_URLs_filter index_to_crs_def filter_map comp_def)

lemma dem_tile_step_mosaic:
  assumes "get_asset L (item_id item) = Inr da"
    and "dem_tile_step L R dem_index (tile_id, item) = Inr out"
  shows "\<exists>dem. fst (download_and_mosaic R
            (map fileurl (filter (\<lambda>row. intersects L (to_crs L (dem_geometry row) (crs_wkt da))
                                          (from_bounds L (rio_bounds da))) dem_index))
            (rio_bounds da) (crs_wkt da) (rio_transform da)) = Inr dem"
  using assms
  by (auto simp: dem_tile_step_def Let_def and_then_Inr lib_Inr DEM_tile_URLs_to_crs)

lemma gshhs_tile_step_union:
  assumes "get_asset L (item_id item) = Inr da"
    and "gshhs_tile_step L gshhs_crs gshhs (tile_id, item) = Inr out"
  shows "rasterize_land L
           (unary_union L
              (map (\<lambda>x. to_crs L (intersection L x (from_bounds L (transform_bounds L da gshhs_crs)))
                          (crs_wkt da))
                 (filter (\<lambda>x. intersects L x (from_bounds L (transform_bounds L da gshhs_crs))) gshhs)))
           tile_id da = Inr ()"
  using assms
  by (auto simp: gshhs_tile_step_def Let_def and_then_Inr lib_Inr intersects_mask_def
      select_mask_map comp_def)

lemma ex_dem_step_A:
  "dem_tile_step ex_tile_lib ex_raster_lib ex_dem_index (''5VMG'', ex_item ''A'' 5 ''MG'' ())
     = Inr ''5VMG.tif''"
  by (simp add: dem_tile_step_def and_then_def lib_def DEM_tile_URLs_to_crs
      download_and_mosaic_def then_log_def call_def glob_dem_tif_def endswith_def
      ex_tile_lib_def ex_raster_lib_def ex_dem_index_def ex_item_def ex_get_asset_def
      ex_data_array_def ex_from_bounds_def intersects_points_def)

lemma dem_tile_step_get_asset_error:
  "get_asset L (item_id item) = Inl msg \<Longrightarrow>
   dem_tile_step L R dem_index (tile_id, item) = Inl (LibraryError msg)"
  by (simp add: dem_tile_step_def and_then_def lib_def)

lemma dem_tile_step_unfold:
  assumes "get_asset L (item_id item) = Inr da"
  shows "dem_tile_step L R dem_index (tile_id, item) =
     and_then (fst (download_and_mosaic R
            (map fileurl (filter (\<lambda>row. intersects L (to_crs L (dem_geometry row) (crs_wkt da))
                                          (from_bounds L (rio_bounds da))) dem_index))
            (rio_bounds da) (crs_wkt da) (rio_transform da))) (\<lambda>dem.
     and_then (lib (to_raster R dem (tile_id @ ''.tif''))) (\<lambda>_.
     and_then (lib (upload L (tile_id @ ''.tif'') (dem_tiles_url @ ''/'' @ tile_id @ ''.tif''))) (\<lambda>_.
     Inr (tile_id @ ''.tif''))))"
  using assms by (simp add: dem_tile_step_def Let_def and_then_def lib_def DEM_tile_URLs_to_crs)

lemma gshhs_tile_step_get_asset_error:
  "get_asset L (item_id item) = Inl msg \<Longrightarrow>
   gshhs_tile_step L gshhs_crs gshhs (tile_id, item) = Inl (LibraryError msg)"
  by (simp add: gshhs_tile_step_def and_then_def lib_def)

lemma gshhs_tile_step_unfold:
  assumes "get_asset L (item_id item) = Inr da"
  shows "gshhs_tile_step L gshhs_crs gshhs (tile_id, item) =
     and_then (lib (rasterize_land L
           (unary_union L
              (map (\<lambda>x. to_crs L (intersection L x (from_bounds L (transform_bounds L da gshhs_crs)))
                          (crs_wkt da))
                 (filter (\<lambda>x. intersects L x (from_bounds L (transform_bounds L da gshhs_crs))) gshhs)))
           tile_id da)) (\<lambda>_.
     and_then (lib (upload L (tile_id @ ''.tif'') (gshhs_tiles_url @ ''/'' @ tile_id @ ''.tif''))) (\<lambda>_.
     Inr (tile_id @ ''.tif'')))"
  using assms
  by (simp add: gshhs_tile_step_def Let_def and_then_def lib_def intersects_mask_def
      select_mask_map comp_def)

lemma tile_loop_error:
  "tile_loop step tiles = (outs, Some e) \<Longrightarrow> \<exists>t \<in> set tiles. step t = Inl e"
  by (induction tiles arbitrary: outs) (auto split: sum.splits prod.splits)

lemma lib_only_tile_loop:
  assumes "\<And>t. lib_only (step t)" and "tile_loop step tiles = (outs, Some e)"
  shows "\<exists>msg. e = LibraryError msg"
proof -
  from tile_loop_error [OF assms(2)] obtain t where "step t = Inl e" by blast
  with assms(1) [of t] show ?thesis by (simp add: lib_only_def)
qed

text \<open>
  Claim C3 says that the elevation notebook asserts the one-match invariant as the
  glacier notebook does.  In the examples the footprint of the first tile matches two
  rows of the elevation index, and the loop body of the elevation notebook processes the
  tile and uploads its raster.
\<close>

theorem dem_several_matches_counterexample:
  "get_itersecting_DEM_tile_URLs (intersects ex_tile_lib)
      (index_to_crs ex_tile_lib ex_dem_index (crs_wkt (ex_data_array 0)))
      (from_bounds ex_tile_lib (rio_bounds (ex_data_array 0))) = [''t1'', ''t2'']
   \<and> dem_tile_step ex_tile_lib ex_raster_lib ex_dem_index (''5VMG'', ex_item ''A'' 5 ''MG'' ())
       = Inr ''5VMG.tif''"
proof -
  have "get_itersecting_DEM_tile_URLs (intersects ex_tile_lib)
      (index_to_crs ex_tile_lib ex_dem_index (crs_wkt (ex_data_array 0)))
      (from_bounds ex_tile_lib (rio_bounds (ex_data_array 0))) = [''t1'', ''t2'']"
    unfolding DEM_tile_URLs_to_crs
    by (simp add: ex_tile_lib_def ex_dem_index_def intersects_points_def ex_data_array_def
        ex_from_bounds_def)
  with ex_dem_step_A show ?thesis by (intro conjI)
qed

text \<open>
  Claim C3, as the code has it.  Only the glacier notebook has the assertion, which
  fires exactly when the number of matches is not one.  No statement of the elevation
  notebook or of the coastline notebook raises: an exception of their loop bodies, and so
  an exception that ends their loops over the tiles, can only come out of a library call.
  Once the band of the tile is read, the body of the elevation notebook is the call of
  \<open>download_and_mosaic\<close> on the URLs of all the rows that match the footprint, however
  many there are, followed by the writing and the upload of the raster; the body of the
  coastline notebook is the rasterising of the union of the intersections of all the
  matched geometries with the footprint, followed by the upload.  Neither body looks at
  the number of matches.
\<close>

theorem assertion_only_in_glacier_notebook:
  "(rgi_lookup I rgi_index g = Inl AssertionError
      \<longleftrightarrow> length (filter (\<lambda>row. I (rgi_geometry row) g) rgi_index) \<noteq> 1)
   \<and> lib_only (dem_tile_step L R dem_index tile)
   \<and> lib_only (gshhs_tile_step L' gshhs_crs gshhs tile')
   \<and> dem_tile_step L R dem_index tile \<noteq> Inl AssertionError
   \<and> gshhs_tile_step L' gshhs_crs gshhs tile' \<noteq> Inl AssertionError
   \<and> (get_asset L (item_id item) = Inl msg
      \<longrightarrow> dem_tile_step L R dem_index (tile_id, item) = Inl (LibraryError msg))
   \<and> (get_asset L (item_id item) = Inr da
      \<longrightarrow> dem_tile_step L R dem_index (tile_id, item) =
           and_then (fst (download_and_mosaic R
              (map fileurl (filter (\<lambda>row. intersects L (to_crs L (dem_geometry row) (crs_wkt da))
                                            (from_bounds L (rio_bounds da))) dem_index))
              (rio_bounds da) (crs_wkt da) (rio_transform da))) (\<lambda>dem.
           and_then (lib (to_raster R dem (tile_id @ ''.tif''))) (\<lambda>_.
           and_then (lib (upload L (tile_id @ ''.tif'') (dem_tiles_url @ ''/'' @ tile_id @ ''.tif''))) (\<lambda>_.
           Inr (tile_id @ ''.tif'')))))
   \<and> (get_asset L' (item_id item') = Inl msg'
      \<longrightarrow> gshhs_tile_step L' gshhs_crs gshhs (tile_id', item') = Inl (LibraryError msg'))
   \<and> (get_asset L' (item_id item') = Inr da'
      \<longrightarrow> gshhs_tile_step L' gshhs_crs gshhs (tile_id', item') =
           and_then (lib (rasterize_land L'
             (unary_union L'
                (map (\<lambda>x. to_crs L' (intersection L' x (from_bounds L' (transform_bounds L' da' gshhs_crs)))
                            (crs_wkt da'))
                   (filter (\<lambda>x. intersects L' x (from_bounds L' (transform_bounds L' da' gshhs_crs))) gshhs)))
             tile_id' da')) (\<lambda>_.
           and_then (lib (upload L' (tile_id' @ ''.tif'') (gshhs_tiles_url @ ''/'' @ tile_id' @ ''.tif''))) (\<lambda>_.
           Inr (tile_id' @ ''.tif''))))
   \<and> (get_asset L (item_id item) = Inr da
      \<and> dem_tile_step L R dem_index (tile_id, item) = Inr out
      \<longrightarrow> (\<exists>dem. fst (download_and_mosaic R
            (map fileurl (filter (\<lambda>row. intersects L (to_crs L (dem_geometry row) (crs_wkt da))
                                          (from_bounds L (rio_bounds da))) dem_index))
            (rio_bounds da) (crs_wkt da) (rio_transform da)) = Inr dem))
   \<and> (get_asset L' (item_id item') = Inr da'
      \<and> gshhs_tile_step L' gshhs_crs gshhs (tile_id', item') = Inr out'
      \<longrightarrow> rasterize_land L'
           (unary_union L'
              (map (\<lambda>x. to_crs L' (intersection L' x (from_bounds L' (transform_bounds L' da' gshhs_crs)))
                          (crs_wkt da'))
                 (filter (\<lambda>x. intersects L' x (from_bounds L' (transform_bounds L' da' gshhs_crs))) gshhs)))
           tile_id' da' = Inr ())
   \<and> (dem_notebook L R dem_index tiles = (outs, Some e) \<longrightarrow> (\<exists>m. e = LibraryError m))
   \<and> (gshhs_notebook L' gshhs_crs gshhs tiles' = (outs', Some e') \<longrightarrow> (\<exists>m. e' = LibraryError m))"
proof (intro conjI impI)
  show "rgi_lookup I rgi_index g = Inl AssertionError
      \<longleftrightarrow> length (filter (\<lambda>row. I (rgi_geometry row) g) rgi_index) \<noteq> 1"
    using rgi_lookup_error [of I rgi_index g AssertionError] rgi_lookup_not_one [of I g rgi_index]
    by blast
next
  show "lib_only (dem_tile_step L R dem_index tile)"
    by (rule lib_only_dem_tile_step)
next
  show "lib_only (gshhs_tile_step L' gshhs_crs gshhs tile')"
    by (rule lib_only_gshhs_tile_step)
next
  show "dem_tile_step L R dem_index tile \<noteq> Inl AssertionError"
    by (rule lib_only_not_assertion) (rule lib_only_dem_tile_step)
next
  show "gshhs_tile_step L' gshhs_crs gshhs tile' \<noteq> Inl AssertionError"
    by (rule lib_only_not_assertion) (rule lib_only_gshhs_tile_step)
next
  assume "get_asset L (item_id item) = Inl msg"
  then show "dem_tile_step L R dem_index (tile_id, item) = Inl (LibraryError msg)"
    by (rule dem_tile_step_get_asset_error)
next
  assume "get_asset L (item_id item) = Inr da"
  then show "dem_tile_step L R dem_index (tile_id, item) =
           and_then (fst (download_and_mosaic R
              (map fileurl (filter (\<lambda>row. intersects L (to_crs L (dem_geometry row) (crs_wkt da))
                                            (from_bounds L (rio_bounds da))) dem_index))
              (rio_bounds da) (crs_wkt da) (rio_transform da))) (\<lambda>dem.
           and_then (lib (to_raster R dem (tile_id @ ''.tif''))) (\<lambda>_.
           and_then (lib (upload L (tile_id @ ''.tif'') (dem_tiles_url @ ''/'' @ tile_id @ ''.tif''))) (\<lambda>_.
           Inr (tile_id @ ''.tif''))))"
    by (rule dem_tile_step_unfold)
next
  assume "get_asset L' (item_id item') = Inl msg'"
  then show "gshhs_tile_step L' gshhs_crs gshhs (tile_id', item') = Inl (LibraryError msg')"
    by (rule gshhs_tile_step_get_asset_error)
next
  assume "get_asset L' (item_id item') = Inr da'"
  then show "gshhs_tile_step L' gshhs_crs gshhs (tile_id', item') =
           and_then (lib (rasterize_land L'
             (unary_union L'
                (map (\<lambda>x. to_crs L' (intersection L' x (from_bounds L' (transform_bounds L' da' gshhs_crs)))
                            (crs_wkt da'))
                   (filter (\<lambda>x. intersects L' x (from_bounds L' (transform_bounds L' da' gshhs_crs))) gshhs)))
             tile_id' da')) (\<lambda>_.
           and_then (lib (upload L' (tile_id' @ ''.tif'') (gshhs_tiles_url @ ''/'' @ tile_id' @ ''.tif''))) (\<lambda>_.
           Inr (tile_id' @ ''.tif'')))"
    by (rule gshhs_tile_step_unfold)
next
  assume "get_asset L (item_id item) = Inr da
      \<and> dem_tile_step L R dem_index (tile_id, item) = Inr out"
  then show "\<exists>dem. fst (download_and_mosaic R
            (map fileurl (filter (\<lambda>row. intersects L (to_crs L (dem_geometry row) (crs_wkt da))
                                          (from_bounds L (rio_bounds da))) dem_index))
            (rio_bounds da) (crs_wkt da) (rio_transform da)) = Inr dem"
    using dem_tile_step_mosaic by blast
next
  assume "get_asset L' (item_id item') = Inr da'
      \<and> gshhs_tile_step L' gshhs_crs gshhs (tile_id', item') = Inr out'"
  then show "rasterize_land L'
           (unary_union L'
              (map (\<lambda>x. to_crs L' (intersection L' x (from_bounds L' (transform_bounds L' da' gshhs_crs)))
                          (crs_wkt da'))
                 (filter (\<lambda>x. intersects L' x (from_bounds L' (transform_bounds L' da' gshhs_crs))) gshhs)))
           tile_id' da' = Inr ()"
    using gshhs_tile_step_union by blast
next
  assume "dem_notebook L R dem_index tiles = (outs, Some e)"
  then show "\<exists>m. e = LibraryError m"
    unfolding dem_notebook_def by (rule lib_only_tile_loop [OF lib_only_dem_tile_step])
next
  assume "gshhs_notebook L' gshhs_crs gshhs tiles' = (outs', Some e')"
  then show "\<exists>m. e' = LibraryError m"
    unfolding gshhs_notebook_def by (rule lib_only_tile_loop [OF lib_only_gshhs_tile_step])
qed

lemma ex_gshhs_step_A:
  "gshhs_tile_step ex_gshhs_lib ''EPSG:4326'' [{0, 2}, {3, 5}, {8}] (''5VMG'', ex_item ''A'' 5 ''MG'' ())
     = Inr ''5VMG.tif''"
proof -
  have "select_mask ([{0, 2}, {3, 5}, {8}] :: nat set list)
      (intersects_mask intersects_points [{0, 2}, {3, 5}, {8}] ({2, 3} :: nat set))
        = [{0, 2}, {3, 5}]"
    by (simp add: intersects_mask_def select_mask_def intersects_points_def)
  then show ?thesis
    by (simp add: gshhs_tile_step_def and_then_def lib_def
        ex_gshhs_lib_def ex_item_def ex_get_asset_def ex_data_array_def ex_from_bounds_def)
qed

lemma ex_get_asset_tile_B:
  "get_asset ex_tile_lib (item_id (ex_item ''B'' 6 ''MG'' ())) = Inr (ex_data_array 5)"
  by (simp add: ex_tile_lib_def ex_item_def ex_get_asset_def)

lemma ex_get_asset_gshhs_B:
  "get_asset ex_gshhs_lib (item_id (ex_item ''B'' 6 ''MG'' ())) = Inr (ex_data_array 5)"
  by (simp add: ex_gshhs_lib_def ex_item_def ex_get_asset_def)

lemma ex_dem_urls_B:
  "map fileurl (filter (\<lambda>row. intersects ex_tile_lib
       (to_crs ex_tile_lib (dem_geometry row) (crs_wkt (ex_data_array 5)))
       (from_bounds ex_tile_lib (rio_bounds (ex_data_array 5)))) ex_dem_index) = []"
  by (simp add: ex_tile_lib_def ex_dem_index_def intersects_points_def ex_data_array_def
      ex_from_bounds_def)

lemma ex_download_and_mosaic_none:
  "fst (download_and_mosaic ex_raster_lib [] bbx crs tr) = Inl (LibraryError ''no rasters to merge'')"
  by (simp add: download_and_mosaic_def then_log_def call_def lib_def glob_dem_tif_def
      ex_raster_lib_def)

lemma ex_gshhs_union_B:
  "unary_union ex_gshhs_lib
     (map (\<lambda>x. to_crs ex_gshhs_lib (intersection ex_gshhs_lib x
             (from_bounds ex_gshhs_lib (transform_bounds ex_gshhs_lib (ex_data_array 5) ''EPSG:4326'')))
                 (crs_wkt (ex_data_array 5)))
        (filter (\<lambda>x. intersects ex_gshhs_lib x
             (from_bounds ex_gshhs_lib (transform_bounds ex_gshhs_lib (ex_data_array 5) ''EPSG:4326'')))
           [{0, 2}, {3, 5}, {8}])) = {}"
  by (simp add: ex_gshhs_lib_def intersects_points_def ex_data_array_def ex_from_bounds_def)

lemma ex_rasterize_land_empty:
  "rasterize_land ex_gshhs_lib {} tile_id da = Inl ''empty shape''"
  by (simp add: ex_gshhs_lib_def)

text \<open>
  The first tile of the examples meets two rows of the elevation index and two polygons
  of the coastline: both notebooks process it, where the glacier notebook would stop.
  The second tile meets no row and no polygon: every URL matched, none, is handed to
  \<open>download_and_mosaic\<close>, and the exception that ends each body is the one the toy
  library raises at an empty input.
\<close>

theorem assertion_only_in_glacier_notebook_witness:
  "rgi_lookup intersects_points ex_rgi_index {7} = Inl AssertionError
   \<and> dem_tile_step ex_tile_lib ex_raster_lib ex_dem_index (''5VMG'', ex_item ''A'' 5 ''MG'' ())
       = Inr ''5VMG.tif''
   \<and> (\<exists>dem. fst (download_and_mosaic ex_raster_lib [''t1'', ''t2''] (0, 0, 1, 1) ''EPSG:32605'' ())
       = Inr dem)
   \<and> gshhs_tile_step ex_gshhs_lib ''EPSG:4326'' [{0, 2}, {3, 5}, {8}]
        (''5VMG'', ex_item ''A'' 5 ''MG'' ()) = Inr ''5VMG.tif''
   \<and> rasterize_land ex_gshhs_lib {2, 3} ''5VMG'' (ex_data_array 0) = Inr ()
   \<and> dem_tile_step ex_tile_lib ex_raster_lib ex_dem_index (''6VMG'', ex_item ''B'' 6 ''MG'' ())
       = Inl (LibraryError ''no rasters to merge'')
   \<and> gshhs_tile_step ex_gshhs_lib ''EPSG:4326'' [{0, 2}, {3, 5}, {8}]
        (''6VMG'', ex_item ''B'' 6 ''MG'' ()) = Inl (LibraryError ''empty shape'')
   \<and> dem_notebook ex_tile_lib ex_raster_lib ex_dem_index
        [(''5VMG'', ex_item ''A'' 5 ''MG'' ()), (''6VMG'', ex_item ''B'' 6 ''MG'' ())]
       = ([''5VMG.tif''], Some (LibraryError ''no rasters to merge''))"
proof -
  let ?A = "(''5VMG'', ex_item ''A'' 5 ''MG'' ())" and ?B = "(''6VMG'', ex_item ''B'' 6 ''MG'' ())"
  note rgi = assertion_only_in_glacier_notebook
    [where I = intersects_points and rgi_index = ex_rgi_index and g = "{7}", THEN conjunct1]
  note rest = assertion_only_in_glacier_notebook [THEN conjunct2]
  note rest5 = rest [THEN conjunct2, THEN conjunct2, THEN conjunct2, THEN conjunct2]
  note dem_eq = rest5 [THEN conjunct2, THEN conjunct1, rule_format]
  note gshhs_eq = rest5 [THEN conjunct2, THEN conjunct2, THEN conjunct2, THEN conjunct1, rule_format]
  note rest9 = rest5 [THEN conjunct2, THEN conjunct2, THEN conjunct2, THEN conjunct2]
  note dem = rest9 [THEN conjunct1, rule_format]
  note gshhs = rest9 [THEN conjunct2, THEN conjunct1, rule_format]
  have "length (filter (\<lambda>row. intersects_points (rgi_geometry row) {7}) ex_rgi_index) \<noteq> 1"
    unfolding ex_rgi_matches_B by simp
  with rgi have 1: "rgi_lookup intersects_points ex_rgi_index {7} = Inl AssertionError"
    by blast
  have da: "get_asset ex_tile_lib (item_id (ex_item ''A'' 5 ''MG'' ())) = Inr (ex_data_array 0)"
    by (simp add: ex_tile_lib_def ex_item_def ex_get_asset_def)
  have "\<exists>dem. fst (download_and_mosaic ex_raster_lib
            (map fileurl (filter (\<lambda>row. intersects ex_tile_lib
                 (to_crs ex_tile_lib (dem_geometry row) (crs_wkt (ex_data_array 0)))
                 (from_bounds ex_tile_lib (rio_bounds (ex_data_array 0)))) ex_dem_index))
            (rio_bounds (ex_data_array 0)) (crs_wkt (ex_data_array 0))
            (rio_transform (ex_data_array 0))) = Inr dem"
    using da ex_dem_step_A by (intro dem conjI)
  moreover have "map fileurl (filter (\<lambda>row. intersects ex_tile_lib
                 (to_crs ex_tile_lib (dem_geometry row) (crs_wkt (ex_data_array 0)))
                 (from_bounds ex_tile_lib (rio_bounds (ex_data_array 0)))) ex_dem_index)
      = [''t1'', ''t2'']"
    by (simp add: ex_tile_lib_def ex_dem_index_def intersects_points_def ex_data_array_def
        ex_from_bounds_def)
  moreover have "rio_bounds (ex_data_array 0) = (0, 0, 1, 1)"
    "crs_wkt (ex_data_array 0) = ''EPSG:32605''"
    by (simp_all add: ex_data_array_def)
  ultimately
  have 2: "\<exists>dem. fst (download_and_mosaic ex_raster_lib [''t1'', ''t2''] (0, 0, 1, 1) ''EPSG:32605'' ())
      = Inr dem"
    by simp
  have da': "get_asset ex_gshhs_lib (item_id (ex_item ''A'' 5 ''MG'' ())) = Inr (ex_data_array 0)"
    by (simp add: ex_gshhs_lib_def ex_item_def ex_get_asset_def)
  have "rasterize_land ex_gshhs_lib
           (unary_union ex_gshhs_lib
              (map (\<lambda>x. to_crs ex_gshhs_lib (intersection ex_gshhs_lib x
                      (from_bounds ex_gshhs_lib (transform_bounds ex_gshhs_lib (ex_data_array 0) ''EPSG:4326'')))
                          (crs_wkt (ex_data_array 0)))
                 (filter (\<lambda>x. intersects ex_gshhs_lib x
                      (from_bounds ex_gshhs_lib (transform_bounds ex_gshhs_lib (ex_data_array 0) ''EPSG:4326'')))
                    [{0, 2}, {3, 5}, {8}])))
           ''5VMG'' (ex_data_array 0) = Inr ()"
    using da' ex_gshhs_step_A by (intro gshhs conjI)
  moreover have "unary_union ex_gshhs_lib
              (map (\<lambda>x. to_crs ex_gshhs_lib (intersection ex_gshhs_lib x
                      (from_bounds ex_gshhs_lib (transform_bounds ex_gshhs_lib (ex_data_array 0) ''EPSG:4326'')))
                          (crs_wkt (ex_data_array 0)))
                 (filter (\<lambda>x. intersects ex_gshhs_lib x
                      (from_bounds ex_gshhs_lib (transform_bounds ex_gshhs_lib (ex_data_array 0) ''EPSG:4326'')))
                    [{0, 2}, {3, 5}, {8}])) = {2, 3}"
    by (auto simp: ex_gshhs_lib_def intersects_points_def ex_data_array_def ex_from_bounds_def)
  ultimately have 3: "rasterize_land ex_gshhs_lib {2, 3} ''5VMG'' (ex_data_array 0) = Inr ()"
    by simp
  have 4: "dem_tile_step ex_tile_lib ex_raster_lib ex_dem_index ?B
      = Inl (LibraryError ''no rasters to merge'')"
    unfolding dem_eq [OF ex_get_asset_tile_B] ex_dem_urls_B ex_download_and_mosaic_none
    by (simp add: and_then_def)
  have 5: "gshhs_tile_step ex_gshhs_lib ''EPSG:4326'' [{0, 2}, {3, 5}, {8}] ?B
      = Inl (LibraryError ''empty shape'')"
    unfolding gshhs_eq [OF ex_get_asset_gshhs_B] ex_gshhs_union_B ex_rasterize_land_empty
    by (simp add: and_then_def lib_def)
  have 7: "dem_notebook ex_tile_lib ex_raster_lib ex_dem_index [?A, ?B]
       = ([''5VMG.tif''], Some (LibraryError ''no rasters to merge''))"
    by (simp add: dem_notebook_def ex_dem_step_A 4)
  from 1 ex_dem_step_A 2 ex_gshhs_step_A 3 4 5 7 show ?thesis by (intro conjI)
qed

section \<open>The mosaic of elevation tiles: properties\<close>

lemma then_log_success:
  "then_log m f = (Inr w, calls) \<longleftrightarrow>
     (\<exists>v c1 c2. m = (Inr v, c1) \<and> f v = (Inr w, c2) \<and> calls = c1 @ c2)"
  by (cases m; cases "fst m") (auto simp: then_log_def split: prod.splits)

lemma call_success: "call c r = (Inr v, calls) \<longleftrightarrow> r = Inr v \<and> calls = [c]"
  by (cases r) (auto simp: call_def lib_def)

lemma download_loop_calls:
  "download_loop R urls tmpdir = (Inr d, calls) \<Longrightarrow> calls = map GetTarFile urls"
  by (induction urls arbitrary: tmpdir calls) (auto simp: then_log_success call_success)

lemma open_all_success:
  "open_all R fs = (Inr rs, calls) \<longleftrightarrow>
     list_all2 (\<lambda>f r. open_rasterio R f = Inr r) fs rs
     \<and> calls = map (\<lambda>f. OpenRasterio (fst f)) fs"
proof (induction fs arbitrary: rs calls)
  case Nil
  then show ?case by auto
next
  case (Cons f fs)
  show ?case
    by (auto simp: then_log_success call_success Cons.IH list_all2_Cons1)
qed

text \<open>
  Claim C5.  \<open>download_and_mosaic\<close> returns a raster exactly when every library call it
  makes succeeds, and then it has made these calls, in this order: one download for each
  URL of the list, in the order of the list; the opening of the elevation files found in
  the temporary directory; one merge of all the rasters opened; one reprojection of the
  merged raster to the tile's coordinate reference system and transform; one crop of the
  reprojected raster to the tile's bounding box.  The raster returned is the result of the
  crop.
\<close>

theorem download_and_mosaic_steps:
  "download_and_mosaic R url_list bbx crs transform = (Inr dem_clip, calls) \<longleftrightarrow>
     (\<exists>tmpdir dem_tiles dem dem_reproj.
        fst (download_loop R url_list []) = Inr tmpdir
      \<and> list_all2 (\<lambda>f r. open_rasterio R f = Inr r) (glob_dem_tif tmpdir) dem_tiles
      \<and> merge_arrays R dem_tiles = Inr dem
      \<and> reproject R dem crs transform = Inr dem_reproj
      \<and> clip_box R dem_reproj bbx = Inr dem_clip
      \<and> calls = map GetTarFile url_list
              @ map (\<lambda>f. OpenRasterio (fst f)) (glob_dem_tif tmpdir)
              @ [MergeArrays (length dem_tiles), Reproject crs transform, ClipBox bbx])"
proof
  assume "download_and_mosaic R url_list bbx crs transform = (Inr dem_clip, calls)"
  then obtain tmpdir c1 dem_tiles c2 dem dem_reproj where
    d: "download_loop R url_list [] = (Inr tmpdir, c1)" and
    o: "open_all R (glob_dem_tif tmpdir) = (Inr dem_tiles, c2)" and
    m: "merge_arrays R dem_tiles = Inr dem" and
    r: "reproject R dem crs transform = Inr dem_reproj" and
    c: "clip_box R dem_reproj bbx = Inr dem_clip" and
    calls: "calls = c1 @ c2 @ [MergeArrays (length dem_tiles), Reproject crs transform, ClipBox bbx]"
    by (auto simp: download_and_mosaic_def then_log_success call_success)
  from d have c1: "c1 = map GetTarFile url_list" by (rule download_loop_calls)
  from o have c2: "list_all2 (\<lambda>f r. open_rasterio R f = Inr r) (glob_dem_tif tmpdir) dem_tiles"
    "c2 = map (\<lambda>f. OpenRasterio (fst f)) (glob_dem_tif tmpdir)"
    by (simp_all add: open_all_success)
  from d c1 c2 m r c calls show "\<exists>tmpdir dem_tiles dem dem_reproj.
        fst (download_loop R url_list []) = Inr tmpdir
      \<and> list_all2 (\<lambda>f r. open_rasterio R f = Inr r) (glob_dem_tif tmpdir) dem_tiles
      \<and> merge_arrays R dem_tiles = Inr dem
      \<and> reproject R dem crs transform = Inr dem_reproj
      \<and> clip_box R dem_reproj bbx = Inr dem_clip
      \<and> calls = map GetTarFile url_list
              @ map (\<lambda>f. OpenRasterio (fst f)) (glob_dem_tif tmpdir)
              @ [MergeArrays (length dem_tiles), Reproject crs transform, ClipBox bbx]"
    by auto
next
  assume "\<exists>tmpdir dem_tiles dem dem_reproj.
        fst (download_loop R url_list []) = Inr tmpdir
      \<and> list_all2 (\<lambda>f r. open_rasterio R f = Inr r) (glob_dem_tif tmpdir) dem_tiles
      \<and> merge_arrays R dem_tiles = Inr dem
      \<and> reproject R dem crs transform = Inr dem_reproj
      \<and> clip_box R dem_reproj bbx = Inr dem_clip
      \<and> calls = map GetTarFile url_list
              @ map (\<lambda>f. OpenRasterio (fst f)) (glob_dem_tif tmpdir)
              @ [MergeArrays (length dem_tiles), Reproject crs transform, ClipBox bbx]"
  then obtain tmpdir dem_tiles dem dem_reproj where
    d: "fst (download_loop R url_list []) = Inr tmpdir" and
    o: "list_all2 (\<lambda>f r. open_rasterio R f = Inr r) (glob_dem_tif tmpdir) dem_tiles" and
    m: "merge_arrays R dem_tiles = Inr dem" and
    r: "reproject R dem crs transform = Inr dem_reproj" and
    c: "clip_box R dem_reproj bbx = Inr dem_clip" and
    calls: "calls = map GetTarFile url_list
              @ map (\<lambda>f. OpenRasterio (fst f)) (glob_dem_tif tmpdir)
              @ [MergeArrays (length dem_tiles), Reproject crs transform, ClipBox bbx]"
    by blast
  from d have d': "download_loop R url_list [] = (Inr tmpdir, map GetTarFile url_list)"
    using download_loop_calls [of R url_list "[]" tmpdir "snd (download_loop R url_list [])"]
    by (cases "download_loop R url_list []") auto
  from o have o': "open_all R (glob_dem_tif tmpdir)
      = (Inr dem_tiles, map (\<lambda>f. OpenRasterio (fst f)) (glob_dem_tif tmpdir))"
    by (simp add: open_all_success)
  show "download_and_mosaic R url_list bbx crs transform = (Inr dem_clip, calls)"
    by (simp add: download_and_mosaic_def d' o' m r c calls then_log_Inr call_def lib_def)
qed

lemma ex_download_and_mosaic:
  "download_and_mosaic ex_raster_lib [''t1'', ''t2''] (0, 0, 1, 1) ''EPSG:32605'' ()
     = (Inr [''t1_reg_dem.tif'', ''t2_reg_dem.tif''],
        [GetTarFile ''t1'', GetTarFile ''t2'',
         OpenRasterio ''t1_reg_dem.tif'', OpenRasterio ''t2_reg_dem.tif'',
         MergeArrays 2, Reproject ''EPSG:32605'' (), ClipBox (0, 0, 1, 1)])"
  by (simp add: download_and_mosaic_def then_log_def call_def lib_def glob_dem_tif_def
      endswith_def ex_raster_lib_def)

text \<open>
  Two archives, each holding an elevation file and a file of another kind: two downloads,
  two files opened, one merge of two rasters, one reprojection, one crop.
\<close>

theorem download_and_mosaic_steps_witness:
  "download_and_mosaic ex_raster_lib [''t1'', ''t2''] (0, 0, 1, 1) ''EPSG:32605'' ()
     = (Inr [''t1_reg_dem.tif'', ''t2_reg_dem.tif''],
        [GetTarFile ''t1'', GetTarFile ''t2'',
         OpenRasterio ''t1_reg_dem.tif'', OpenRasterio ''t2_reg_dem.tif'',
         MergeArrays 2, Reproject ''EPSG:32605'' (), ClipBox (0, 0, 1, 1)])
   \<and> (\<exists>tmpdir dem_tiles dem.
         fst (download_loop ex_raster_lib [''t1'', ''t2''] []) = Inr tmpdir
       \<and> map fst (glob_dem_tif tmpdir) = [''t1_reg_dem.tif'', ''t2_reg_dem.tif'']
       \<and> length dem_tiles = 2
       \<and> merge_arrays ex_raster_lib dem_tiles = Inr dem
       \<and> clip_box ex_raster_lib dem (0, 0, 1, 1) = Inr [''t1_reg_dem.tif'', ''t2_reg_dem.tif''])"
proof -
  from download_and_mosaic_steps [THEN iffD1, OF ex_download_and_mosaic]
  obtain tmpdir dem_tiles dem dem_reproj where
    d: "fst (download_loop ex_raster_lib [''t1'', ''t2''] []) = Inr tmpdir" and
    o: "list_all2 (\<lambda>f r. open_rasterio ex_raster_lib f = Inr r) (glob_dem_tif tmpdir) dem_tiles" and
    m: "merge_arrays ex_raster_lib dem_tiles = Inr dem" and
    r: "reproject ex_raster_lib dem ''EPSG:32605'' () = Inr dem_reproj" and
    c: "clip_box ex_raster_lib dem_reproj (0, 0, 1, 1) = Inr [''t1_reg_dem.tif'', ''t2_reg_dem.tif'']" and
    calls: "[GetTarFile ''t1'', GetTarFile ''t2'',
         OpenRasterio ''t1_reg_dem.tif'', OpenRasterio ''t2_reg_dem.tif'',
         MergeArrays 2, Reproject ''EPSG:32605'' (), ClipBox (0, 0, 1, 1)]
      = map GetTarFile [''t1'', ''t2'']
              @ map (\<lambda>f. OpenRasterio (fst f)) (glob_dem_tif tmpdir)
              @ [MergeArrays (length dem_tiles), Reproject ''EPSG:32605'' (), ClipBox (0, 0, 1, 1)]"
    by blast
  from d have tmpdir: "tmpdir = [(''t1_reg_dem.tif'', ''t1''), (''t1_matchtag.tif'', ''t1''),
      (''t2_reg_dem.tif'', ''t2''), (''t2_matchtag.tif'', ''t2'')]"
    by (simp add: then_log_def call_def lib_def ex_raster_lib_def)
  then have g: "map fst (glob_dem_tif tmpdir) = [''t1_reg_dem.tif'', ''t2_reg_dem.tif'']"
    by (simp add: glob_dem_tif_def endswith_def)
  from o g have len: "length dem_tiles = 2"
    using list_all2_lengthD [OF o] length_map [of fst "glob_dem_tif tmpdir"] by simp
  from r have "dem_reproj = dem" by (simp add: ex_raster_lib_def)
  with c have c': "clip_box ex_raster_lib dem (0, 0, 1, 1) = Inr [''t1_reg_dem.tif'', ''t2_reg_dem.tif'']"
    by simp
  from d g len m c'
  have "\<exists>tmpdir dem_tiles dem.
         fst (download_loop ex_raster_lib [''t1'', ''t2''] []) = Inr tmpdir
       \<and> map fst (glob_dem_tif tmpdir) = [''t1_reg_dem.tif'', ''t2_reg_dem.tif'']
       \<and> length dem_tiles = 2
       \<and> merge_arrays ex_raster_lib dem_tiles = Inr dem
       \<and> clip_box ex_raster_lib dem (0, 0, 1, 1) = Inr [''t1_reg_dem.tif'', ''t2_reg_dem.tif'']"
    by (intro exI conjI)
  with ex_download_and_mosaic show ?thesis by (rule conjI)
qed

section \<open>Re-linking the assets: properties\<close>

lemma assign_band_hrefs_dom: "dom (assign_band_hrefs band_urls m) = dom m"
  by (induction band_urls m rule: assign_band_hrefs.induct) (auto split: option.splits)

lemma assign_band_hrefs_None: "m k = None \<Longrightarrow> assign_band_hrefs band_urls m k = None"
  using assign_band_hrefs_dom [of band_urls m] by (metis domIff)

text \<open>
  After the loop over \<open>band_urls\<close>, an asset of the item has the URL of its key in
  \<open>band_urls\<close> if the key is there, its former URL otherwise, and is unchanged apart
  from the URL.
\<close>

lemma assign_band_hrefs_value:
  "distinct (map fst band_urls) \<Longrightarrow> m k = Some a \<Longrightarrow>
   \<exists>a'. assign_band_hrefs band_urls m k = Some a'
      \<and> href a' = (case map_of band_urls k of Some u \<Rightarrow> u | None \<Rightarrow> href a)
      \<and> a' = a\<lparr>href := href a'\<rparr>"
proof (induction band_urls arbitrary: m a)
  case Nil
  then show ?case by simp
next
  case (Cons p rest)
  obtain band url where p: "p = (band, url)" by (cases p)
  from Cons.prems(1) p have d: "distinct (map fst rest)" and fresh: "map_of rest band = None"
    by (auto simp: map_of_eq_None_iff)
  show ?case
  proof (cases "m band")
    case None
    with Cons.prems(2) have "k \<noteq> band" by auto
    with Cons.IH [where m = m and a = a, OF d Cons.prems(2)] None p show ?thesis by simp
  next
    case (Some a0)
    show ?thesis
    proof (cases "k = band")
      case True
      with Some Cons.prems(2) have a0: "a0 = a" by simp
      have "(m(band \<mapsto> a\<lparr>href := url\<rparr>)) k = Some (a\<lparr>href := url\<rparr>)"
        using True by simp
      from Cons.IH [where m = "m(band \<mapsto> a\<lparr>href := url\<rparr>)" and a = "a\<lparr>href := url\<rparr>", OF d this]
      obtain a' where
        "assign_band_hrefs rest (m(band \<mapsto> a\<lparr>href := url\<rparr>)) k = Some a'"
        "href a' = (case map_of rest k of Some u \<Rightarrow> u | None \<Rightarrow> href (a\<lparr>href := url\<rparr>))"
        "a' = a\<lparr>href := url\<rparr>\<lparr>href := href a'\<rparr>"
        by blast
      with True fresh Some a0 p show ?thesis by simp
    next
      case False
      then have "(m(band \<mapsto> a0\<lparr>href := url\<rparr>)) k = Some a"
        using Cons.prems(2) by simp
      from Cons.IH [where m = "m(band \<mapsto> a0\<lparr>href := url\<rparr>)" and a = a, OF d this]
      obtain a' where
        1: "assign_band_hrefs rest (m(band \<mapsto> a0\<lparr>href := url\<rparr>)) k = Some a'" and
        2: "href a' = (case map_of rest k of Some u \<Rightarrow> u | None \<Rightarrow> href a)" and
        3: "a' = a\<lparr>href := href a'\<rparr>"
        by blast
      have "assign_band_hrefs (p # rest) m k
          = assign_band_hrefs rest (m(band \<mapsto> a0\<lparr>href := url\<rparr>)) k"
        using p Some by simp
      moreover have "map_of (p # rest) k = map_of rest k"
        using p False by simp
      ultimately show ?thesis using 1 2 3 by simp
    qed
  qed
qed

lemma assign_band_hrefs_frame:
  "m k = Some a \<Longrightarrow> assign_band_hrefs band_urls m k = Some a' \<Longrightarrow> a' = a\<lparr>href := href a'\<rparr>"
proof (induction band_urls arbitrary: m a)
  case Nil
  then show ?case by simp
next
  case (Cons p rest)
  obtain band url where p: "p = (band, url)" by (cases p)
  show ?case
  proof (cases "m band")
    case None
    with Cons p show ?thesis by simp
  next
    case (Some a0)
    show ?thesis
    proof (cases "k = band")
      case True
      with Some Cons.prems(1) have a0: "a0 = a" by simp
      have "(m(band \<mapsto> a\<lparr>href := url\<rparr>)) k = Some (a\<lparr>href := url\<rparr>)"
        using True by simp
      moreover have "assign_band_hrefs rest (m(band \<mapsto> a\<lparr>href := url\<rparr>)) k = Some a'"
        using Cons.prems(2) p Some a0 by simp
      ultimately have "a' = a\<lparr>href := url\<rparr>\<lparr>href := href a'\<rparr>"
        by (rule Cons.IH)
      then show ?thesis by simp
    next
      case False
      then have "(m(band \<mapsto> a0\<lparr>href := url\<rparr>)) k = Some a"
        using Cons.prems(1) by simp
      moreover have "assign_band_hrefs rest (m(band \<mapsto> a0\<lparr>href := url\<rparr>)) k = Some a'"
        using Cons.prems(2) p Some by simp
      ultimately show ?thesis by (rule Cons.IH)
    qed
  qed
qed

lemma only_hrefs_changed_refl: "only_hrefs_changed item item"
  by (auto simp: only_hrefs_changed_def)

lemma only_hrefs_changed_assign:
  "only_hrefs_changed item (item\<lparr>assets := assign_band_hrefs band_urls (assets item)\<rparr>)"
  by (auto simp: only_hrefs_changed_def assign_band_hrefs_dom dest: assign_band_hrefs_frame)

lemma only_hrefs_changed_href:
  assumes "only_hrefs_changed item item1" and "assets item1 k = Some a"
  shows "only_hrefs_changed item (item1\<lparr>assets := (assets item1)(k \<mapsto> a\<lparr>href := u\<rparr>)\<rparr>)"
proof -
  from assms(1) have same: "item1 = item\<lparr>assets := assets item1\<rparr>"
    and d: "dom (assets item1) = dom (assets item)"
    and fr: "\<And>k a a'. assets item k = Some a \<Longrightarrow> assets item1 k = Some a' \<Longrightarrow> a' = a\<lparr>href := href a'\<rparr>"
    by (auto simp: only_hrefs_changed_def)
  have 1: "item1\<lparr>assets := (assets item1)(k \<mapsto> a\<lparr>href := u\<rparr>)\<rparr>
      = item\<lparr>assets := (assets item1)(k \<mapsto> a\<lparr>href := u\<rparr>)\<rparr>"
    by (subst same) simp
  have 2: "dom ((assets item1)(k \<mapsto> a\<lparr>href := u\<rparr>)) = dom (assets item)"
    using d assms(2) by auto
  have 3: "b' = b\<lparr>href := href b'\<rparr>"
    if "assets item k' = Some b" and "((assets item1)(k \<mapsto> a\<lparr>href := u\<rparr>)) k' = Some b'" for k' b b'
  proof (cases "k' = k")
    case True
    with that(2) have b': "b' = a\<lparr>href := u\<rparr>" by simp
    from fr [OF that(1) [unfolded True] assms(2)] have "a = b\<lparr>href := href a\<rparr>" .
    then have "a\<lparr>href := u\<rparr> = b\<lparr>href := u\<rparr>"
      by (metis asset.surjective asset.update_convs(1))
    with b' show ?thesis by simp
  next
    case False
    with that fr show ?thesis by simp
  qed
  show ?thesis
    unfolding only_hrefs_changed_def
    using 1 2 3 by auto
qed

lemma relink_item_frame: "only_hrefs_changed item (fst (relink_item U item))"
proof (cases "scene_url item")
  case (Inl e)
  then show ?thesis by (simp add: relink_item_def only_hrefs_changed_refl)
next
  case url: (Inr url)
  show ?thesis
  proof (cases "get_band_urls U url")
    case (Inl e)
    with url show ?thesis by (simp add: relink_item_def only_hrefs_changed_refl)
  next
    case bu: (Inr band_urls)
    let ?item1 = "item\<lparr>assets := assign_band_hrefs band_urls (assets item)\<rparr>"
    have f1: "only_hrefs_changed item ?item1" by (rule only_hrefs_changed_assign)
    show ?thesis
    proof (cases "map_of band_urls ''TCI''")
      case None
      with url bu f1 show ?thesis by (simp add: relink_item_def getitem_def)
    next
      case tci: (Some tci)
      show ?thesis
      proof (cases "assets ?item1 ''overview''")
        case None
        with url bu tci f1 show ?thesis by (simp add: relink_item_def getitem_def)
      next
        case (Some a)
        from only_hrefs_changed_href [OF f1 Some]
        have "only_hrefs_changed item
            (?item1\<lparr>assets := (assets ?item1)(''overview'' \<mapsto> a\<lparr>href := tci\<rparr>)\<rparr>)" .
        with url bu tci Some show ?thesis by (simp add: relink_item_def getitem_def)
      qed
    qed
  qed
qed

lemma relink_loop_frame: "list_all2 only_hrefs_changed items (fst (relink_loop U items))"
proof (induction items)
  case Nil
  then show ?case by simp
next
  case (Cons item rest)
  have refl: "list_all2 only_hrefs_changed rest rest"
    by (simp add: list_all2_same only_hrefs_changed_refl)
  obtain item' r where step: "relink_item U item = (item', r)" by (cases "relink_item U item")
  with relink_item_frame [of item U] have f: "only_hrefs_changed item item'" by simp
  show ?case
  proof (cases r)
    case None
    obtain rest' r' where loop: "relink_loop U rest = (rest', r')"
      by (cases "relink_loop U rest")
    with Cons.IH have "list_all2 only_hrefs_changed rest rest'" by simp
    with step f None loop show ?thesis by simp
  next
    case (Some e)
    with step f refl show ?thesis by simp
  qed
qed

text \<open>
  Claim C7.  Whatever the libraries return, and whether the loop ends normally or by an
  exception, the collection after the re-linking loop has the same number of items, and
  the item at each position has the identifier, timestamp, geometry, bounding box,
  property mapping and links it had, the same asset keys, and at each key an asset that
  differs from the former one at most in its \<open>href\<close>: its media type and its roles are
  unchanged.
\<close>

theorem relink_changes_only_hrefs:
  assumes "relink_loop U items = (items', r)"
  shows "length items' = length items
   \<and> (\<forall>n < length items.
        item_id (items' ! n) = item_id (items ! n)
      \<and> datetime (items' ! n) = datetime (items ! n)
      \<and> geometry (items' ! n) = geometry (items ! n)
      \<and> bbox (items' ! n) = bbox (items ! n)
      \<and> properties (items' ! n) = properties (items ! n)
      \<and> links (items' ! n) = links (items ! n)
      \<and> dom (assets (items' ! n)) = dom (assets (items ! n))
      \<and> (\<forall>k a a'. assets (items ! n) k = Some a \<and> assets (items' ! n) k = Some a'
            \<longrightarrow> media_type a' = media_type a \<and> roles a' = roles a))"
proof -
  from assms relink_loop_frame [of items U] have all: "list_all2 only_hrefs_changed items items'"
    by simp
  then have len: "length items' = length items"
    by (simp add: list_all2_lengthD)
  have "item_id (items' ! n) = item_id (items ! n)
      \<and> datetime (items' ! n) = datetime (items ! n)
      \<and> geometry (items' ! n) = geometry (items ! n)
      \<and> bbox (items' ! n) = bbox (items ! n)
      \<and> properties (items' ! n) = properties (items ! n)
      \<and> links (items' ! n) = links (items ! n)
      \<and> dom (assets (items' ! n)) = dom (assets (items ! n))
      \<and> (\<forall>k a a'. assets (items ! n) k = Some a \<and> assets (items' ! n) k = Some a'
            \<longrightarrow> media_type a' = media_type a \<and> roles a' = roles a)"
    if "n < length items" for n
  proof -
    from all that have f: "only_hrefs_changed (items ! n) (items' ! n)"
      by (rule list_all2_nthD)
    then have same: "items' ! n = (items ! n)\<lparr>assets := assets (items' ! n)\<rparr>"
      and d: "dom (assets (items' ! n)) = dom (assets (items ! n))"
      and fr: "\<And>k a a'. assets (items ! n) k = Some a \<Longrightarrow> assets (items' ! n) k = Some a'
                \<Longrightarrow> a' = a\<lparr>href := href a'\<rparr>"
      by (auto simp: only_hrefs_changed_def)
    have fields: "item_id (items' ! n) = item_id (items ! n)"
      "datetime (items' ! n) = datetime (items ! n)"
      "geometry (items' ! n) = geometry (items ! n)"
      "bbox (items' ! n) = bbox (items ! n)"
      "properties (items' ! n) = properties (items ! n)"
      "links (items' ! n) = links (items ! n)"
      by (subst same, simp)+
    have "media_type a' = media_type a \<and> roles a' = roles a"
      if "assets (items ! n) k = Some a" and "assets (items' ! n) k = Some a'" for k a a'
    proof -
      from fr [OF that] have "a' = a\<lparr>href := href a'\<rparr>" .
      then have "media_type a' = media_type (a\<lparr>href := href a'\<rparr>)"
        and "roles a' = roles (a\<lparr>href := href a'\<rparr>)"
        by simp_all
      then show ?thesis by simp
    qed
    with fields d show ?thesis by blast
  qed
  with len show ?thesis by blast
qed

lemma band_urls_loop_inv:
  "band_urls_loop U url acc objs = Inr res \<Longrightarrow> distinct (map fst acc) \<Longrightarrow>
     distinct (map fst res)
     \<and> fst ` set res = fst ` set acc \<union>
         {b. \<exists>obj \<in> set objs. \<exists>ident h. ID obj = Some ident \<and> contains ident ''IMG_DATA''
               \<and> fileLocation obj = Some (Some h)
               \<and> b = last_field CHR ''_'' (stem U (url_div U url h))}"
proof (induction objs arbitrary: acc)
  case Nil
  then show ?case by simp
next
  case (Cons obj objs)
  show ?case
  proof (cases "ID obj")
    case None
    with Cons.prems have "band_urls_loop U url acc objs = Inr res" by simp
    from Cons.IH [OF this Cons.prems(2)] None show ?thesis by auto
  next
    case (Some ident)
    show ?thesis
    proof (cases "contains ident ''IMG_DATA''")
      case False
      with Cons.prems Some have "band_urls_loop U url acc objs = Inr res" by simp
      from Cons.IH [OF this Cons.prems(2)] Some False show ?thesis by auto
    next
      case True
      with Cons.prems(1) Some obtain h where h: "fileLocation obj = Some (Some h)"
        by (auto split: option.splits)
      let ?band = "last_field CHR ''_'' (stem U (url_div U url h))"
      let ?acc = "AList.update ?band (as_uri U (url_div U url h)) acc"
      from Cons.prems(1) Some True h have run: "band_urls_loop U url ?acc objs = Inr res"
        by (simp add: Let_def)
      have d: "distinct (map fst ?acc)"
        using Cons.prems(2) by (rule AList.distinct_update)
      from Cons.IH [OF run d] have d': "distinct (map fst res)" and
        keys: "fst ` set res = fst ` set ?acc \<union>
         {b. \<exists>obj \<in> set objs. \<exists>ident h. ID obj = Some ident \<and> contains ident ''IMG_DATA''
               \<and> fileLocation obj = Some (Some h)
               \<and> b = last_field CHR ''_'' (stem U (url_div U url h))}"
        by simp_all
      have "fst ` set ?acc = insert ?band (fst ` set acc)"
        by (simp add: AList.dom_update)
      with keys Some True h have "fst ` set res = fst ` set acc \<union>
         {b. \<exists>obj \<in> set (obj # objs). \<exists>ident h. ID obj = Some ident \<and> contains ident ''IMG_DATA''
               \<and> fileLocation obj = Some (Some h)
               \<and> b = last_field CHR ''_'' (stem U (url_div U url h))}"
        by auto
      with d' show ?thesis by simp
    qed
  qed
qed

lemma get_band_urls_keys:
  assumes "get_manifest U (url_div U url ''manifest.safe'') = Inr objs"
    and "get_band_urls U url = Inr band_urls"
  shows "distinct (map fst band_urls)"
    and "fst ` set band_urls =
         {b. \<exists>obj \<in> set objs. \<exists>ident h. ID obj = Some ident \<and> contains ident ''IMG_DATA''
               \<and> fileLocation obj = Some (Some h)
               \<and> b = last_field CHR ''_'' (stem U (url_div U url h))}"
proof -
  from assms have "band_urls_loop U url [] objs = Inr band_urls"
    by (simp add: get_band_urls_def and_then_def lib_def)
  from band_urls_loop_inv [OF this] show "distinct (map fst band_urls)"
    and "fst ` set band_urls =
         {b. \<exists>obj \<in> set objs. \<exists>ident h. ID obj = Some ident \<and> contains ident ''IMG_DATA''
               \<and> fileLocation obj = Some (Some h)
               \<and> b = last_field CHR ''_'' (stem U (url_div U url h))}"
    by simp_all
qed

lemma relink_item_unfold:
  assumes "scene_url item = Inr url" and "get_band_urls U url = Inr band_urls"
  shows "relink_item U item =
     (case map_of band_urls ''TCI'' of
        None \<Rightarrow> (item\<lparr>assets := assign_band_hrefs band_urls (assets item)\<rparr>, Some KeyError)
      | Some tci \<Rightarrow>
          (case assign_band_hrefs band_urls (assets item) ''overview'' of
             None \<Rightarrow> (item\<lparr>assets := assign_band_hrefs band_urls (assets item)\<rparr>, Some KeyError)
           | Some a \<Rightarrow>
               (item\<lparr>assets := (assign_band_hrefs band_urls (assets item))(''overview'' \<mapsto> a\<lparr>href := tci\<rparr>)\<rparr>,
                None)))"
  using assms by (simp add: relink_item_def getitem_def split: option.splits)

text \<open>The examples: one scene, re-linked with the full manifest and with the one lacking \<open>TCI\<close>.\<close>

lemma ex_scene_url:
  "scene_url (ex_item ''S2B'' 5 ''MG'' g)
     = Inr ''http://storage.googleapis.com/gcp-public-data-sentinel-2/tiles/05/V/MG/S2B_P.SAFE''"
  by (simp add: scene_url_def and_then_def getitem_def ex_item_def BASE_URL_tiles_def
      format_02d_int_def str_int_def str_nat.simps digit_char_def)

lemma ex_get_manifest: "get_manifest (ex_url_lib manifest) u = Inr manifest"
  by (simp add: ex_url_lib_def)

lemma ex_get_band_urls:
  "get_band_urls (ex_url_lib ex_manifest)
      ''http://storage.googleapis.com/gcp-public-data-sentinel-2/tiles/05/V/MG/S2B_P.SAFE''
     = Inr [(''B01'', ''http://storage.googleapis.com/gcp-public-data-sentinel-2/tiles/05/V/MG/S2B_P.SAFE/IMG_DATA/T05VMG_B01.jp2''),
            (''TCI'', ''http://storage.googleapis.com/gcp-public-data-sentinel-2/tiles/05/V/MG/S2B_P.SAFE/IMG_DATA/T05VMG_TCI.jp2''),
            (''B08'', ''http://storage.googleapis.com/gcp-public-data-sentinel-2/tiles/05/V/MG/S2B_P.SAFE/IMG_DATA/T05VMG_B08.jp2'')]"
  by (simp add: get_band_urls_def and_then_def lib_def ex_url_lib_def ex_manifest_def
      last_field_def)

lemma ex_get_band_urls_no_TCI:
  "get_band_urls (ex_url_lib ex_manifest_no_TCI)
      ''http://storage.googleapis.com/gcp-public-data-sentinel-2/tiles/05/V/MG/S2B_P.SAFE''
     = Inr [(''B01'', ''http://storage.googleapis.com/gcp-public-data-sentinel-2/tiles/05/V/MG/S2B_P.SAFE/IMG_DATA/T05VMG_B01.jp2'')]"
  by (simp add: get_band_urls_def and_then_def lib_def ex_url_lib_def ex_manifest_no_TCI_def
      last_field_def)

lemma ex_assets:
  "assets (ex_item ident zone square g) ''B01'' = Some (ex_asset ''B01'')"
  "assets (ex_item ident zone square g) ''B02'' = Some (ex_asset ''B02'')"
  "assets (ex_item ident zone square g) ''B08'' = None"
  "assets (ex_item ident zone square g) ''overview'' = Some (ex_asset ''preview'')"
  by (simp_all add: ex_item_def)

text \<open>
  Claim C10.  Let the manifest of an item's scene be read and yield the mapping
  \<open>band_urls\<close>.  The mapping has the key \<open>TCI\<close> exactly when the manifest has an image
  entry whose band is \<open>TCI\<close>; without it the loop body ends with a \<open>KeyError\<close>.  With
  it, and with an \<open>overview\<close> asset in the item, the body ends normally and the
  \<open>overview\<close> asset has the \<open>TCI\<close> URL.  In every case an asset of the item other than
  \<open>overview\<close> has the URL of its key in \<open>band_urls\<close> if the key is there and its
  previous URL otherwise, and a key that is not an asset of the item is not one
  afterwards.
\<close>

theorem relink_item_hrefs:
  assumes "scene_url item = Inr url"
    and "get_manifest U (url_div U url ''manifest.safe'') = Inr objs"
    and "get_band_urls U url = Inr band_urls"
  shows
   "(map_of band_urls ''TCI'' = None \<longleftrightarrow>
       \<not> (\<exists>obj \<in> set objs. \<exists>ident h. ID obj = Some ident \<and> contains ident ''IMG_DATA''
             \<and> fileLocation obj = Some (Some h)
             \<and> last_field CHR ''_'' (stem U (url_div U url h)) = ''TCI''))
    \<and> (map_of band_urls ''TCI'' = None \<longrightarrow> snd (relink_item U item) = Some KeyError)
    \<and> (\<forall>tci ov. map_of band_urls ''TCI'' = Some tci \<and> assets item ''overview'' = Some ov \<longrightarrow>
          snd (relink_item U item) = None
          \<and> (\<exists>a. assets (fst (relink_item U item)) ''overview'' = Some a \<and> href a = tci))
    \<and> (\<forall>k a. k \<noteq> ''overview'' \<and> assets item k = Some a \<longrightarrow>
          (\<exists>a'. assets (fst (relink_item U item)) k = Some a'
               \<and> href a' = (case map_of band_urls k of Some u \<Rightarrow> u | None \<Rightarrow> href a)))
    \<and> (\<forall>k. assets item k = None \<longrightarrow> assets (fst (relink_item U item)) k = None)"
proof -
  note keys = get_band_urls_keys [OF assms(2) assms(3)]
  note unfold = relink_item_unfold [OF assms(1) assms(3)]
  let ?assigned = "assign_band_hrefs band_urls (assets item)"
  have 1: "map_of band_urls ''TCI'' = None \<longleftrightarrow>
       \<not> (\<exists>obj \<in> set objs. \<exists>ident h. ID obj = Some ident \<and> contains ident ''IMG_DATA''
             \<and> fileLocation obj = Some (Some h)
             \<and> last_field CHR ''_'' (stem U (url_div U url h)) = ''TCI'')"
  proof -
    have "map_of band_urls ''TCI'' = None \<longleftrightarrow> ''TCI'' \<notin> fst ` set band_urls"
      by (simp add: map_of_eq_None_iff)
    also have "\<dots> \<longleftrightarrow> \<not> (\<exists>obj \<in> set objs. \<exists>ident h. ID obj = Some ident \<and> contains ident ''IMG_DATA''
             \<and> fileLocation obj = Some (Some h)
             \<and> last_field CHR ''_'' (stem U (url_div U url h)) = ''TCI'')"
      unfolding keys(2) by simp metis
    finally show ?thesis .
  qed
  have 2: "snd (relink_item U item) = Some KeyError" if "map_of band_urls ''TCI'' = None"
    using that unfold by simp
  have 3: "snd (relink_item U item) = None
          \<and> (\<exists>a. assets (fst (relink_item U item)) ''overview'' = Some a \<and> href a = tci)"
    if "map_of band_urls ''TCI'' = Some tci" and "assets item ''overview'' = Some ov" for tci ov
  proof -
    from assign_band_hrefs_value [where m = "assets item" and k = "''overview''", OF keys(1) that(2)]
    obtain a where "?assigned ''overview'' = Some a" by blast
    with that(1) unfold show ?thesis by simp
  qed
  have 4: "\<exists>a'. assets (fst (relink_item U item)) k = Some a'
               \<and> href a' = (case map_of band_urls k of Some u \<Rightarrow> u | None \<Rightarrow> href a)"
    if "k \<noteq> ''overview''" and "assets item k = Some a" for k a
  proof -
    from assign_band_hrefs_value [where m = "assets item" and k = k, OF keys(1) that(2)]
    obtain a' where
      a': "?assigned k = Some a'"
      "href a' = (case map_of band_urls k of Some u \<Rightarrow> u | None \<Rightarrow> href a)"
      by blast
    have "assets (fst (relink_item U item)) k = ?assigned k"
      using that(1) unfold by (simp split: option.splits)
    with a' show ?thesis by simp
  qed
  have 5: "assets (fst (relink_item U item)) k = None" if "assets item k = None" for k
  proof -
    from that have none: "?assigned k = None" by (rule assign_band_hrefs_None)
    show ?thesis
    proof (cases "k = ''overview''")
      case True
      with none unfold show ?thesis by (simp split: option.splits)
    next
      case False
      with none unfold show ?thesis by (simp split: option.splits)
    qed
  qed
  from 1 2 3 4 5 show ?thesis by blast
qed

lemma ex_relink_item:
  "snd (relink_item (ex_url_lib ex_manifest) (ex_item ''S2B'' 5 ''MG'' ())) = None"
  "assets (fst (relink_item (ex_url_lib ex_manifest) (ex_item ''S2B'' 5 ''MG'' ()))) ''B01''
     = Some ((ex_asset ''B01'')\<lparr>href := ''http://storage.googleapis.com/gcp-public-data-sentinel-2/tiles/05/V/MG/S2B_P.SAFE/IMG_DATA/T05VMG_B01.jp2''\<rparr>)"
  using relink_item_unfold [OF ex_scene_url ex_get_band_urls, where g1 = "()"]
  by (simp_all add: ex_item_def)

lemma relink_loop_head:
  "fst (relink_loop U (item # rest)) ! 0 = fst (relink_item U item)"
  by (cases "relink_item U item"; cases "snd (relink_item U item)"; cases "relink_loop U rest")
    auto

text \<open>
  Two scenes re-linked with the example manifest: the first item keeps its identifier,
  its properties, its three asset keys and the media type of its asset \<open>B01\<close>, whose
  URL has changed.
\<close>

theorem relink_changes_only_hrefs_witness:
  "length (fst (relink_loop (ex_url_lib ex_manifest)
      [ex_item ''S2B'' 5 ''MG'' (), ex_item ''S2A'' 5 ''MG'' ()])) = 2
   \<and> item_id (fst (relink_loop (ex_url_lib ex_manifest)
      [ex_item ''S2B'' 5 ''MG'' (), ex_item ''S2A'' 5 ''MG'' ()]) ! 0) = ''S2B''
   \<and> properties (fst (relink_loop (ex_url_lib ex_manifest)
      [ex_item ''S2B'' 5 ''MG'' (), ex_item ''S2A'' 5 ''MG'' ()]) ! 0)
      = properties (ex_item ''S2B'' 5 ''MG'' ())
   \<and> dom (assets (fst (relink_loop (ex_url_lib ex_manifest)
      [ex_item ''S2B'' 5 ''MG'' (), ex_item ''S2A'' 5 ''MG'' ()]) ! 0))
      = {''B01'', ''B02'', ''overview''}
   \<and> map_option media_type (assets (fst (relink_loop (ex_url_lib ex_manifest)
      [ex_item ''S2B'' 5 ''MG'' (), ex_item ''S2A'' 5 ''MG'' ()]) ! 0) ''B01'')
      = Some (Some ''image/jp2'')
   \<and> map_option href (assets (fst (relink_loop (ex_url_lib ex_manifest)
      [ex_item ''S2B'' 5 ''MG'' (), ex_item ''S2A'' 5 ''MG'' ()]) ! 0) ''B01'')
      = Some ''http://storage.googleapis.com/gcp-public-data-sentinel-2/tiles/05/V/MG/S2B_P.SAFE/IMG_DATA/T05VMG_B01.jp2''"
proof -
  let ?U = "ex_url_lib ex_manifest"
  let ?items = "[ex_item ''S2B'' 5 ''MG'' (), ex_item ''S2A'' 5 ''MG'' ()]"
  let ?items' = "fst (relink_loop ?U ?items)"
  let ?new = "''http://storage.googleapis.com/gcp-public-data-sentinel-2/tiles/05/V/MG/S2B_P.SAFE/IMG_DATA/T05VMG_B01.jp2''"
  have run: "relink_loop ?U ?items = (?items', snd (relink_loop ?U ?items))"
    by simp
  note t = relink_changes_only_hrefs [OF run]
  from t have len: "length ?items' = 2"
    by (simp del: relink_loop.simps)
  have "0 < length ?items" by simp
  note at0 = t [THEN conjunct2, rule_format, OF this]
  have b01: "assets (?items' ! 0) ''B01'' = Some ((ex_asset ''B01'')\<lparr>href := ?new\<rparr>)"
    unfolding relink_loop_head by (rule ex_relink_item(2))
  have old: "assets (?items ! 0) ''B01'' = Some (ex_asset ''B01'')"
    by (simp add: ex_assets)
  from at0 old b01
  have "media_type ((ex_asset ''B01'')\<lparr>href := ?new\<rparr>) = media_type (ex_asset ''B01'')"
    by blast
  with b01 have mt: "map_option media_type (assets (?items' ! 0) ''B01'') = Some (Some ''image/jp2'')"
    by (simp add: ex_asset_def del: relink_loop.simps)
  from b01 have hr: "map_option href (assets (?items' ! 0) ''B01'') = Some ?new"
    by (simp del: relink_loop.simps)
  from at0 have "item_id (?items' ! 0) = item_id (?items ! 0)" by blast
  then have ident: "item_id (?items' ! 0) = ''S2B''"
    by (simp add: ex_item_def del: relink_loop.simps)
  from at0 have "properties (?items' ! 0) = properties (?items ! 0)" by blast
  then have props: "properties (?items' ! 0) = properties (ex_item ''S2B'' 5 ''MG'' ())"
    by (simp del: relink_loop.simps)
  from at0 have "dom (assets (?items' ! 0)) = dom (assets (?items ! 0))" by blast
  moreover have "dom (assets (?items ! 0)) = {''B01'', ''B02'', ''overview''}"
    by (simp add: ex_item_def) auto
  ultimately have keys: "dom (assets (?items' ! 0)) = {''B01'', ''B02'', ''overview''}"
    by (simp del: relink_loop.simps)
  from len ident props keys mt hr show ?thesis by (intro conjI)
qed

text \<open>
  The example scene: with the full manifest the body ends normally, \<open>overview\<close> and
  \<open>B01\<close> have their URLs from the manifest, \<open>B02\<close>, which the manifest lacks, keeps
  its URL, and \<open>B08\<close>, which the item lacks, is not added.  With the manifest lacking
  \<open>TCI\<close> the body ends with a \<open>KeyError\<close>.
\<close>

theorem relink_item_hrefs_witness:
  "snd (relink_item (ex_url_lib ex_manifest) (ex_item ''S2B'' 5 ''MG'' ())) = None
   \<and> (\<exists>a. assets (fst (relink_item (ex_url_lib ex_manifest) (ex_item ''S2B'' 5 ''MG'' ()))) ''overview'' = Some a
        \<and> href a = ''http://storage.googleapis.com/gcp-public-data-sentinel-2/tiles/05/V/MG/S2B_P.SAFE/IMG_DATA/T05VMG_TCI.jp2'')
   \<and> (\<exists>a. assets (fst (relink_item (ex_url_lib ex_manifest) (ex_item ''S2B'' 5 ''MG'' ()))) ''B01'' = Some a
        \<and> href a = ''http://storage.googleapis.com/gcp-public-data-sentinel-2/tiles/05/V/MG/S2B_P.SAFE/IMG_DATA/T05VMG_B01.jp2'')
   \<and> (\<exists>a. assets (fst (relink_item (ex_url_lib ex_manifest) (ex_item ''S2B'' 5 ''MG'' ()))) ''B02'' = Some a
        \<and> href a = ''s3://sentinel-s2-l1c/tiles/5/V/MG/B02.jp2'')
   \<and> assets (fst (relink_item (ex_url_lib ex_manifest) (ex_item ''S2B'' 5 ''MG'' ()))) ''B08'' = None
   \<and> snd (relink_item (ex_url_lib ex_manifest_no_TCI) (ex_item ''S2B'' 5 ''MG'' ())) = Some KeyError"
proof -
  let ?item = "ex_item ''S2B'' 5 ''MG'' ()"
  let ?url = "''http://storage.googleapis.com/gcp-public-data-sentinel-2/tiles/05/V/MG/S2B_P.SAFE''"
  let ?band_urls = "[(''B01'', ?url @ ''/IMG_DATA/T05VMG_B01.jp2''),
                     (''TCI'', ?url @ ''/IMG_DATA/T05VMG_TCI.jp2''),
                     (''B08'', ?url @ ''/IMG_DATA/T05VMG_B08.jp2'')]"
  have bu: "get_band_urls (ex_url_lib ex_manifest) ?url = Inr ?band_urls"
    using ex_get_band_urls by simp
  have bu': "get_band_urls (ex_url_lib ex_manifest_no_TCI) ?url
      = Inr [(''B01'', ?url @ ''/IMG_DATA/T05VMG_B01.jp2'')]"
    using ex_get_band_urls_no_TCI by simp
  note full = relink_item_hrefs [OF ex_scene_url [where g = "()"] ex_get_manifest bu]
  note lacking = relink_item_hrefs [OF ex_scene_url [where g = "()"] ex_get_manifest bu']
  have tci: "map_of ?band_urls ''TCI'' = Some (?url @ ''/IMG_DATA/T05VMG_TCI.jp2'')
      \<and> assets ?item ''overview'' = Some (ex_asset ''preview'')"
    by (simp add: ex_assets)
  from full [THEN conjunct2, THEN conjunct2, THEN conjunct1, rule_format, OF tci]
  have 1: "snd (relink_item (ex_url_lib ex_manifest) ?item) = None"
    and 2: "\<exists>a. assets (fst (relink_item (ex_url_lib ex_manifest) ?item)) ''overview'' = Some a
        \<and> href a = ?url @ ''/IMG_DATA/T05VMG_TCI.jp2''"
    by simp_all
  note other = full [THEN conjunct2, THEN conjunct2, THEN conjunct2, THEN conjunct1, rule_format]
  have "''B01'' \<noteq> ''overview'' \<and> assets ?item ''B01'' = Some (ex_asset ''B01'')"
    by (simp add: ex_assets)
  from other [OF this]
  have 3: "\<exists>a. assets (fst (relink_item (ex_url_lib ex_manifest) ?item)) ''B01'' = Some a
        \<and> href a = ?url @ ''/IMG_DATA/T05VMG_B01.jp2''"
    by simp
  have "''B02'' \<noteq> ''overview'' \<and> assets ?item ''B02'' = Some (ex_asset ''B02'')"
    by (simp add: ex_assets)
  from other [OF this]
  have 4: "\<exists>a. assets (fst (relink_item (ex_url_lib ex_manifest) ?item)) ''B02'' = Some a
        \<and> href a = ''s3://sentinel-s2-l1c/tiles/5/V/MG/B02.jp2''"
    by (simp add: ex_asset_def)
  have "assets ?item ''B08'' = None"
    by (simp add: ex_assets)
  from full [THEN conjunct2, THEN conjunct2, THEN conjunct2, THEN conjunct2, rule_format, OF this]
  have 5: "assets (fst (relink_item (ex_url_lib ex_manifest) ?item)) ''B08'' = None" .
  have "map_of [(''B01'', ?url @ ''/IMG_DATA/T05VMG_B01.jp2'')] ''TCI'' = None"
    by simp
  from lacking [THEN conjunct2, THEN conjunct1, rule_format, OF this]
  have 6: "snd (relink_item (ex_url_lib ex_manifest_no_TCI) ?item) = Some KeyError" .
  from 1 2 3 4 5 6 show ?thesis by simp
qed

section \<open>The URLs in the bucket: properties\<close>

lemma scene_url_cong:
  assumes "\<forall>k \<in> {''sentinel:utm_zone'', ''sentinel:latitude_band'', ''sentinel:grid_square'',
                  ''sentinel:product_id''}. properties item1 k = properties item2 k"
  shows "scene_url item1 = scene_url item2"
  using assms by (simp add: scene_url_def getitem_def)

lemma scene_url_template:
  assumes "properties item ''sentinel:utm_zone'' = Some (PInt zone)"
    and "properties item ''sentinel:latitude_band'' = Some band"
    and "properties item ''sentinel:grid_square'' = Some square"
    and "properties item ''sentinel:product_id'' = Some product"
  shows "scene_url item =
     Inr (''http://storage.googleapis.com/gcp-public-data-sentinel-2/tiles/''
          @ format_02d_int zone @ ''/'' @ py_str band @ ''/'' @ py_str square @ ''/''
          @ py_str product @ ''.SAFE'')"
  using assms by (simp add: scene_url_def and_then_def getitem_def BASE_URL_tiles_def)

lemma length_str_nat_1: "n < 10 \<Longrightarrow> length (str_nat n) = 1"
  by (subst str_nat.simps) simp

lemma length_str_nat_2: "10 \<le> n \<Longrightarrow> n < 100 \<Longrightarrow> length (str_nat n) = 2"
  by (subst str_nat.simps) (simp add: length_str_nat_1)

lemma length_format_02d_int: "0 \<le> zone \<Longrightarrow> zone < 100 \<Longrightarrow> length (format_02d_int zone) = 2"
proof (cases "zone < 10")
  case True
  assume "0 \<le> zone"
  with True have "nat zone < 10" by simp
  with True \<open>0 \<le> zone\<close> show ?thesis
    by (simp add: format_02d_int_def str_int_def length_str_nat_1)
next
  case False
  assume "0 \<le> zone" and "zone < 100"
  with False have "10 \<le> nat zone" "nat zone < 100" by simp_all
  with False \<open>0 \<le> zone\<close> show ?thesis
    by (simp add: format_02d_int_def str_int_def length_str_nat_2)
qed

lemma make_url_cong:
  assumes "properties item1 ''s2:mgrs_tile'' = properties item2 ''s2:mgrs_tile''"
    and "item_id item1 = item_id item2"
  shows "make_url item1 path_rel = make_url item2 path_rel"
  using assms
  by (auto simp: make_url_def getitem_def and_then_def Let_def split: option.splits pyval.splits)

lemma make_url_template:
  assumes "properties item ''s2:mgrs_tile'' = Some (PStr tile)" and "2 < length tile"
  shows "make_url item path_rel =
     Inr (''http://storage.googleapis.com/gcp-public-data-sentinel-2/tiles/''
          @ take 2 tile @ ''/'' @ [tile ! 2] @ ''/'' @ drop 3 tile @ ''/''
          @ item_id item @ ''/'' @ path_rel)"
  using assms
  by (simp add: make_url_def and_then_def getitem_def BASE_URL_def SENTINEL2_BUCKET_def)

text \<open>
  Claim C8.  Both URLs in the public bucket are string templates over the fixed bucket
  name and identifiers of the item.  The URL of a scene (re-linking notebook) is made of
  the four properties utm zone, latitude band, grid square and product id, the zone as a
  decimal number padded with zeros to two digits; two items that agree on the four
  properties have the same URL (or raise the same exception).  The URL of a file of a
  scene (sensor-array notebook) is made of the property \<open>s2:mgrs_tile\<close>, split after
  its second and third characters, of the item's id and of the relative path; two items
  that agree on the property and on the id have the same URL for the same path.
\<close>

theorem bucket_urls_are_templates:
  "((\<forall>k \<in> {''sentinel:utm_zone'', ''sentinel:latitude_band'', ''sentinel:grid_square'',
            ''sentinel:product_id''}. properties item1 k = properties item2 k)
      \<longrightarrow> scene_url item1 = scene_url item2)
   \<and> (properties item ''sentinel:utm_zone'' = Some (PInt zone)
      \<and> properties item ''sentinel:latitude_band'' = Some band
      \<and> properties item ''sentinel:grid_square'' = Some square
      \<and> properties item ''sentinel:product_id'' = Some product
      \<longrightarrow> scene_url item =
           Inr (''http://storage.googleapis.com/gcp-public-data-sentinel-2/tiles/''
                @ format_02d_int zone @ ''/'' @ py_str band @ ''/'' @ py_str square @ ''/''
                @ py_str product @ ''.SAFE''))
   \<and> (0 \<le> zone \<and> zone < 100 \<longrightarrow> length (format_02d_int zone) = 2)
   \<and> (properties item1 ''s2:mgrs_tile'' = properties item2 ''s2:mgrs_tile''
      \<and> item_id item1 = item_id item2
      \<longrightarrow> make_url item1 path_rel = make_url item2 path_rel)
   \<and> (properties item ''s2:mgrs_tile'' = Some (PStr tile) \<and> 2 < length tile
      \<longrightarrow> make_url item path_rel =
           Inr (''http://storage.googleapis.com/gcp-public-data-sentinel-2/tiles/''
                @ take 2 tile @ ''/'' @ [tile ! 2] @ ''/'' @ drop 3 tile @ ''/''
                @ item_id item @ ''/'' @ path_rel))"
proof (intro conjI impI)
  assume "\<forall>k \<in> {''sentinel:utm_zone'', ''sentinel:latitude_band'', ''sentinel:grid_square'',
            ''sentinel:product_id''}. properties item1 k = properties item2 k"
  then show "scene_url item1 = scene_url item2"
    by (rule scene_url_cong)
next
  assume "properties item ''sentinel:utm_zone'' = Some (PInt zone)
      \<and> properties item ''sentinel:latitude_band'' = Some band
      \<and> properties item ''sentinel:grid_square'' = Some square
      \<and> properties item ''sentinel:product_id'' = Some product"
  then show "scene_url item =
           Inr (''http://storage.googleapis.com/gcp-public-data-sentinel-2/tiles/''
                @ format_02d_int zone @ ''/'' @ py_str band @ ''/'' @ py_str square @ ''/''
                @ py_str product @ ''.SAFE'')"
    using scene_url_template [of item zone band square product] by simp
next
  assume "0 \<le> zone \<and> zone < 100"
  then show "length (format_02d_int zone) = 2"
    by (simp add: length_format_02d_int)
next
  assume "properties item1 ''s2:mgrs_tile'' = properties item2 ''s2:mgrs_tile''
      \<and> item_id item1 = item_id item2"
  then show "make_url item1 path_rel = make_url item2 path_rel"
    using make_url_cong [of item1 item2 path_rel] by simp
next
  assume "properties item ''s2:mgrs_tile'' = Some (PStr tile) \<and> 2 < length tile"
  then show "make_url item path_rel =
           Inr (''http://storage.googleapis.com/gcp-public-data-sentinel-2/tiles/''
                @ take 2 tile @ ''/'' @ [tile ! 2] @ ''/'' @ drop 3 tile @ ''/''
                @ item_id item @ ''/'' @ path_rel)"
    using make_url_template [of item tile path_rel] by simp
qed

text \<open>
  The example scene on tile \<open>05VMG\<close>, and a second item with the same properties and
  the same id but another geometry.
\<close>

theorem bucket_urls_are_templates_witness:
  "scene_url (ex_item ''S2B'' 5 ''MG'' (0::int)) = scene_url (ex_item ''S2B'' 5 ''MG'' (1::int))
   \<and> scene_url (ex_item ''S2B'' 5 ''MG'' (0::int))
       = Inr ''http://storage.googleapis.com/gcp-public-data-sentinel-2/tiles/05/V/MG/S2B_P.SAFE''
   \<and> length (format_02d_int 5) = 2
   \<and> make_url (ex_item ''S2B'' 5 ''MG'' (0::int)) ''QI_DATA/MSK_DETFOO_B01.gml''
       = make_url (ex_item ''S2B'' 5 ''MG'' (1::int)) ''QI_DATA/MSK_DETFOO_B01.gml''
   \<and> make_url (ex_item ''S2B'' 5 ''MG'' (0::int)) ''QI_DATA/MSK_DETFOO_B01.gml''
       = Inr ''http://storage.googleapis.com/gcp-public-data-sentinel-2/tiles/05/V/MG/S2B/QI_DATA/MSK_DETFOO_B01.gml''"
proof -
  let ?A = "ex_item ''S2B'' 5 ''MG'' (0::int)" and ?B = "ex_item ''S2B'' 5 ''MG'' (1::int)"
  note t = bucket_urls_are_templates
    [where ?item1.0 = ?A and ?item2.0 = ?B and item = ?A and zone = 5 and band = "PStr ''V''"
      and square = "PStr ''MG''" and product = "PStr ''S2B_P''" and tile = "''05VMG''"
      and path_rel = "''QI_DATA/MSK_DETFOO_B01.gml''"]
  have same: "\<forall>k \<in> {''sentinel:utm_zone'', ''sentinel:latitude_band'', ''sentinel:grid_square'',
            ''sentinel:product_id''}. properties ?A k = properties ?B k"
    by (simp add: ex_item_def)
  have props: "properties ?A ''sentinel:utm_zone'' = Some (PInt 5)
      \<and> properties ?A ''sentinel:latitude_band'' = Some (PStr ''V'')
      \<and> properties ?A ''sentinel:grid_square'' = Some (PStr ''MG'')
      \<and> properties ?A ''sentinel:product_id'' = Some (PStr ''S2B_P'')"
    by (simp add: ex_item_def)
  have zone: "(0::int) \<le> 5 \<and> (5::int) < 100" by simp
  have same': "properties ?A ''s2:mgrs_tile'' = properties ?B ''s2:mgrs_tile''
      \<and> item_id ?A = item_id ?B"
    by (simp add: ex_item_def)
  have tile: "properties ?A ''s2:mgrs_tile'' = Some (PStr ''05VMG'') \<and> 2 < length ''05VMG''"
    by (simp add: ex_item_def)
  have 1: "scene_url ?A = scene_url ?B"
    using same by (rule t [THEN conjunct1, THEN mp])
  have "scene_url ?A =
           Inr (''http://storage.googleapis.com/gcp-public-data-sentinel-2/tiles/''
                @ format_02d_int 5 @ ''/'' @ py_str (PStr ''V'') @ ''/'' @ py_str (PStr ''MG'') @ ''/''
                @ py_str (PStr ''S2B_P'') @ ''.SAFE'')"
    using props by (rule t [THEN conjunct2, THEN conjunct1, THEN mp])
  then have 2: "scene_url ?A
       = Inr ''http://storage.googleapis.com/gcp-public-data-sentinel-2/tiles/05/V/MG/S2B_P.SAFE''"
    by (simp add: format_02d_int_def str_int_def str_nat.simps digit_char_def)
  have 3: "length (format_02d_int 5) = 2"
    using zone by (rule t [THEN conjunct2, THEN conjunct2, THEN conjunct1, THEN mp])
  have 4: "make_url ?A ''QI_DATA/MSK_DETFOO_B01.gml''
      = make_url ?B ''QI_DATA/MSK_DETFOO_B01.gml''"
    using same'
    by (rule t [THEN conjunct2, THEN conjunct2, THEN conjunct2, THEN conjunct1, THEN mp])
  have "make_url ?A ''QI_DATA/MSK_DETFOO_B01.gml'' =
           Inr (''http://storage.googleapis.com/gcp-public-data-sentinel-2/tiles/''
                @ take 2 ''05VMG'' @ ''/'' @ [''05VMG'' ! 2] @ ''/'' @ drop 3 ''05VMG'' @ ''/''
                @ item_id ?A @ ''/'' @ ''QI_DATA/MSK_DETFOO_B01.gml'')"
    using tile
    by (rule t [THEN conjunct2, THEN conjunct2, THEN conjunct2, THEN conjunct2, THEN mp])
  then have 5: "make_url ?A ''QI_DATA/MSK_DETFOO_B01.gml''
       = Inr ''http://storage.googleapis.com/gcp-public-data-sentinel-2/tiles/05/V/MG/S2B/QI_DATA/MSK_DETFOO_B01.gml''"
    by (simp add: ex_item_def)
  from 1 2 3 4 5 show ?thesis by (intro conjI)
qed

section \<open>The catalog for the shadow classification: properties\<close>

lemma add_link_fields:
  "geometry (add_link rel target item) = geometry item"
  "bbox (add_link rel target item) = bbox item"
  "datetime (add_link rel target item) = datetime item"
  by (simp_all add: add_link_def)

lemma ratio_gt:
  "0 < b \<Longrightarrow> truediv a b = Inr (a / b) \<and> (a / b > 7 / 10 \<longleftrightarrow> a > 7 / 10 * b)"
  by (simp add: truediv_def pos_less_divide_eq)

text \<open>
  The invariant of the loop, for any list \<open>acc\<close> built so far: the loop appends one item
  for each level-1C item whose intersection with the area of interest covers more than
  70 % of the area of interest, in order, with the intersection as geometry, its bounds
  as bounding box and the timestamp of the level-1C item.
\<close>

lemma shadow_loop_inv:
  assumes "0 < geom_area S aoi"
  shows "shadow_loop S aoi acc catalog = Inr items \<Longrightarrow>
    \<exists>new. items = acc @ new
      \<and> list_all2
          (\<lambda>item_l1c item.
              geometry item = mapping S (geom_intersection S (shape S (geometry item_l1c)) aoi)
            \<and> bbox item = Some (geom_bounds S (geom_intersection S (shape S (geometry item_l1c)) aoi))
            \<and> datetime item = datetime item_l1c)
          (filter (\<lambda>item_l1c.
              geom_area S (geom_intersection S (shape S (geometry item_l1c)) aoi)
                > 7 / 10 * geom_area S aoi) catalog)
          new"
proof (induction catalog arbitrary: acc)
  case Nil
  then show ?case by simp
next
  case (Cons item_l1c rest)
  let ?geom = "geom_intersection S (shape S (geometry item_l1c)) aoi"
  note ratio = ratio_gt [OF assms, of "geom_area S ?geom"]
  show ?case
  proof (cases "geom_area S ?geom > 7 / 10 * geom_area S aoi")
    case False
    with Cons.prems ratio have "shadow_loop S aoi acc rest = Inr items"
      by (simp add: and_then_def Let_def)
    from Cons.IH [OF this] False show ?thesis by simp
  next
    case True
    with Cons.prems ratio obtain item_l2a where "get_l2a_item S item_l1c = Inr item_l2a"
      by (cases "get_l2a_item S item_l1c") (simp_all add: and_then_def Let_def)
    with Cons.prems ratio True obtain item where
      run: "shadow_loop S aoi (acc @ [item]) rest = Inr items" and
      item: "geometry item = mapping S ?geom" "bbox item = Some (geom_bounds S ?geom)"
        "datetime item = datetime item_l1c"
      by (cases item_l2a) (simp_all add: and_then_def Let_def add_link_fields)
    from Cons.IH [OF run] obtain new where
      new: "items = (acc @ [item]) @ new"
      "list_all2
          (\<lambda>item_l1c item.
              geometry item = mapping S (geom_intersection S (shape S (geometry item_l1c)) aoi)
            \<and> bbox item = Some (geom_bounds S (geom_intersection S (shape S (geometry item_l1c)) aoi))
            \<and> datetime item = datetime item_l1c)
          (filter (\<lambda>item_l1c.
              geom_area S (geom_intersection S (shape S (geometry item_l1c)) aoi)
                > 7 / 10 * geom_area S aoi) rest)
          new"
      by blast
    from new(1) have "items = acc @ (item # new)" by simp
    moreover from new(2) item True have "list_all2
          (\<lambda>item_l1c item.
              geometry item = mapping S (geom_intersection S (shape S (geometry item_l1c)) aoi)
            \<and> bbox item = Some (geom_bounds S (geom_intersection S (shape S (geometry item_l1c)) aoi))
            \<and> datetime item = datetime item_l1c)
          (filter (\<lambda>item_l1c.
              geom_area S (geom_intersection S (shape S (geometry item_l1c)) aoi)
                > 7 / 10 * geom_area S aoi) (item_l1c # rest))
          (item # new)"
      by simp
    ultimately show ?thesis by blast
  qed
qed

lemma shadow_loop_total:
  assumes "0 < geom_area S aoi"
  shows "(\<forall>item_l1c \<in> set catalog.
            geom_area S (geom_intersection S (shape S (geometry item_l1c)) aoi)
              > 7 / 10 * geom_area S aoi
            \<longrightarrow> (\<exists>item_l2a. get_l2a_item S item_l1c = Inr item_l2a)) \<Longrightarrow>
         \<exists>items. shadow_loop S aoi acc catalog = Inr items"
proof (induction catalog arbitrary: acc)
  case Nil
  then show ?case by simp
next
  case (Cons item_l1c rest)
  let ?geom = "geom_intersection S (shape S (geometry item_l1c)) aoi"
  note ratio = ratio_gt [OF assms, of "geom_area S ?geom"]
  from Cons.prems have rest: "\<forall>item_l1c \<in> set rest.
            geom_area S (geom_intersection S (shape S (geometry item_l1c)) aoi)
              > 7 / 10 * geom_area S aoi
            \<longrightarrow> (\<exists>item_l2a. get_l2a_item S item_l1c = Inr item_l2a)"
    by simp
  show ?case
  proof (cases "geom_area S ?geom > 7 / 10 * geom_area S aoi")
    case False
    with ratio Cons.IH [OF rest, of acc] show ?thesis
      by (simp add: and_then_def Let_def)
  next
    case True
    with Cons.prems obtain item_l2a where "get_l2a_item S item_l1c = Inr item_l2a"
      by auto
    with ratio True Cons.IH [OF rest] show ?thesis
      by (simp add: and_then_def Let_def)
  qed
qed

text \<open>
  Claim C9.  Areas are real numbers here (floating-point numbers in Python), and the area
  of interest has a positive area.  When the loop over the level-1C items returns, the
  items it created correspond one to one, in order, to the level-1C items of which the
  intersection with the area of interest has an area strictly greater than 70 % of the
  area of the area of interest: an item is created for each of these and for no other.
  The geometry of a created item is that intersection, its bounding box the bounds of
  the intersection, its timestamp the timestamp of the level-1C item.  The loop returns
  whenever the level-2A item of every selected level-1C item can be looked up.
\<close>

theorem shadow_catalog_selection:
  assumes "0 < geom_area S aoi"
  shows
   "(shadow_catalog_items S aoi catalog_l1c = Inr items \<longrightarrow>
       list_all2
          (\<lambda>item_l1c item.
              geometry item = mapping S (geom_intersection S (shape S (geometry item_l1c)) aoi)
            \<and> bbox item = Some (geom_bounds S (geom_intersection S (shape S (geometry item_l1c)) aoi))
            \<and> datetime item = datetime item_l1c)
          (filter (\<lambda>item_l1c.
              geom_area S (geom_intersection S (shape S (geometry item_l1c)) aoi)
                > 7 / 10 * geom_area S aoi) catalog_l1c)
          items)
    \<and> ((\<forall>item_l1c \<in> set catalog_l1c.
            geom_area S (geom_intersection S (shape S (geometry item_l1c)) aoi)
              > 7 / 10 * geom_area S aoi
            \<longrightarrow> (\<exists>item_l2a. get_l2a_item S item_l1c = Inr item_l2a))
       \<longrightarrow> (\<exists>items. shadow_catalog_items S aoi catalog_l1c = Inr items))"
proof (intro conjI impI)
  assume "shadow_catalog_items S aoi catalog_l1c = Inr items"
  then have "shadow_loop S aoi [] catalog_l1c = Inr items"
    by (simp add: shadow_catalog_items_def)
  from shadow_loop_inv [OF assms this]
  show "list_all2
          (\<lambda>item_l1c item.
              geometry item = mapping S (geom_intersection S (shape S (geometry item_l1c)) aoi)
            \<and> bbox item = Some (geom_bounds S (geom_intersection S (shape S (geometry item_l1c)) aoi))
            \<and> datetime item = datetime item_l1c)
          (filter (\<lambda>item_l1c.
              geom_area S (geom_intersection S (shape S (geometry item_l1c)) aoi)
                > 7 / 10 * geom_area S aoi) catalog_l1c)
          items"
    by simp
next
  assume "\<forall>item_l1c \<in> set catalog_l1c.
            geom_area S (geom_intersection S (shape S (geometry item_l1c)) aoi)
              > 7 / 10 * geom_area S aoi
            \<longrightarrow> (\<exists>item_l2a. get_l2a_item S item_l1c = Inr item_l2a)"
  then show "\<exists>items. shadow_catalog_items S aoi catalog_l1c = Inr items"
    unfolding shadow_catalog_items_def by (rule shadow_loop_total [OF assms])
qed

lemma ex_shadow_run:
  "shadow_catalog_items ex_shadow_lib (0, 10)
      [ex_item ''a'' 5 ''MG'' (0, 8), ex_item ''b'' 5 ''MG'' (5, 20), ex_item ''c'' 5 ''MG'' (0, 7)]
     = Inr [\<lparr>item_id = ''S2_2021-03-29'', datetime = 20210329, geometry = (0, 8),
             bbox = Some (0, 0, 8, 1), properties = Map.empty, assets = Map.empty,
             links = [(''item-L1C'', ''a''), (''item-L2A'', ''S2B_5VMG_20210329_0_L2A'')]\<rparr>]"
  by (simp add: shadow_catalog_items_def and_then_def truediv_def get_l2a_item_def
      last_char_def as_str_def getitem_def add_link_def ex_shadow_lib_def ex_item_def
      str_int_def str_nat.simps digit_char_def)

text \<open>
  An area of interest of length 10 and three scenes that cover 8, 5 and 7 of it: one item
  is created, for the first scene; the scene that covers exactly 70 % is left out.
\<close>

theorem shadow_catalog_selection_witness:
  "0 < geom_area ex_shadow_lib (0, 10)
   \<and> shadow_catalog_items ex_shadow_lib (0, 10)
        [ex_item ''a'' 5 ''MG'' (0, 8), ex_item ''b'' 5 ''MG'' (5, 20), ex_item ''c'' 5 ''MG'' (0, 7)]
       = Inr [\<lparr>item_id = ''S2_2021-03-29'', datetime = 20210329, geometry = (0, 8),
               bbox = Some (0, 0, 8, 1), properties = Map.empty, assets = Map.empty,
               links = [(''item-L1C'', ''a''), (''item-L2A'', ''S2B_5VMG_20210329_0_L2A'')]\<rparr>]
   \<and> filter (\<lambda>item_l1c.
          geom_area ex_shadow_lib
            (geom_intersection ex_shadow_lib (shape ex_shadow_lib (geometry item_l1c)) (0, 10))
          > 7 / 10 * geom_area ex_shadow_lib (0, 10))
        [ex_item ''a'' 5 ''MG'' (0, 8), ex_item ''b'' 5 ''MG'' (5, 20), ex_item ''c'' 5 ''MG'' (0, 7)]
       = [ex_item ''a'' 5 ''MG'' (0, 8)]
   \<and> list_all2
        (\<lambda>item_l1c item.
            geometry item = mapping ex_shadow_lib
              (geom_intersection ex_shadow_lib (shape ex_shadow_lib (geometry item_l1c)) (0, 10))
          \<and> bbox item = Some (geom_bounds ex_shadow_lib
              (geom_intersection ex_shadow_lib (shape ex_shadow_lib (geometry item_l1c)) (0, 10)))
          \<and> datetime item = datetime item_l1c)
        [ex_item ''a'' 5 ''MG'' (0, 8)]
        [\<lparr>item_id = ''S2_2021-03-29'', datetime = 20210329, geometry = (0, 8),
          bbox = Some (0, 0, 8, 1), properties = Map.empty, assets = Map.empty,
          links = [(''item-L1C'', ''a''), (''item-L2A'', ''S2B_5VMG_20210329_0_L2A'')]\<rparr>]"
proof -
  have pos: "0 < geom_area ex_shadow_lib (0, 10)"
    by (simp add: ex_shadow_lib_def)
  have sel: "filter (\<lambda>item_l1c.
          geom_area ex_shadow_lib
            (geom_intersection ex_shadow_lib (shape ex_shadow_lib (geometry item_l1c)) (0, 10))
          > 7 / 10 * geom_area ex_shadow_lib (0, 10))
        [ex_item ''a'' 5 ''MG'' (0, 8), ex_item ''b'' 5 ''MG'' (5, 20), ex_item ''c'' 5 ''MG'' (0, 7)]
       = [ex_item ''a'' 5 ''MG'' (0, 8)]"
    by (simp add: ex_shadow_lib_def ex_item_def)
  from shadow_catalog_selection [OF pos, THEN conjunct1, THEN mp, OF ex_shadow_run]
  have "list_all2
        (\<lambda>item_l1c item.
            geometry item = mapping ex_shadow_lib
              (geom_intersection ex_shadow_lib (shape ex_shadow_lib (geometry item_l1c)) (0, 10))
          \<and> bbox item = Some (geom_bounds ex_shadow_lib
              (geom_intersection ex_shadow_lib (shape ex_shadow_lib (geometry item_l1c)) (0, 10)))
          \<and> datetime item = datetime item_l1c)
        [ex_item ''a'' 5 ''MG'' (0, 8)]
        [\<lparr>item_id = ''S2_2021-03-29'', datetime = 20210329, geometry = (0, 8),
          bbox = Some (0, 0, 8, 1), properties = Map.empty, assets = Map.empty,
          links = [(''item-L1C'', ''a''), (''item-L2A'', ''S2B_5VMG_20210329_0_L2A'')]\<rparr>]"
    unfolding sel .
  with pos ex_shadow_run sel show ?thesis by (intro conjI)
qed

end
